theory Spec2Isabelle
  imports Complex_Main "HOL-Library.AList"
begin

section \<open>JavaScript strings\<close>

text \<open>
  A JavaScript string is modelled as a \<^typ>\<open>string\<close>, one \<^typ>\<open>char\<close> per code unit.
  HTTP header values and request paths reach the handler as byte strings, so the
  code units range over 0..255, which is what \<^typ>\<open>char\<close> holds.
\<close>

text \<open>
  The white space and line terminators that \<^verbatim>\<open>String.prototype.trim\<close> strips, among the
  code units below 256: TAB, LF, VT, FF, CR, SPACE and NBSP.
\<close>

definition isWhitespace :: "char \<Rightarrow> bool" where
  "isWhitespace c \<longleftrightarrow>
     c = CHR 0x09 \<or> c = CHR 0x0A \<or> c = CHR 0x0B \<or> c = CHR 0x0C \<or> c = CHR 0x0D \<or>
     c = CHR 0x20 \<or> c = CHR 0xA0"

definition trim :: "string \<Rightarrow> string" where
  "trim s = rev (dropWhile isWhitespace (rev (dropWhile isWhitespace s)))"

text \<open>\<^verbatim>\<open>s.split(sep)\<close> for a one-character separator; \<^verbatim>\<open>''.split(sep)\<close> is \<^verbatim>\<open>['']\<close>.\<close>

fun split :: "char \<Rightarrow> string \<Rightarrow> string list" where
  "split sep [] = [[]]"
| "split sep (c # cs) =
     (if c = sep then [] # split sep cs
      else (case split sep cs of [] \<Rightarrow> [[c]] | p # ps \<Rightarrow> (c # p) # ps))"

text \<open>\<^verbatim>\<open>parts.join(sep)\<close>.\<close>

fun join :: "string \<Rightarrow> string list \<Rightarrow> string" where
  "join sep [] = []"
| "join sep [p] = p"
| "join sep (p # q # ps) = p @ sep @ join sep (q # ps)"

text \<open>\<^verbatim>\<open>s.startsWith(p)\<close>.\<close>

definition startsWith :: "string \<Rightarrow> string \<Rightarrow> bool" where
  "startsWith s p \<longleftrightarrow> take (length p) s = p"

text \<open>\<^verbatim>\<open>s.includes(p)\<close>: \<^verbatim>\<open>p\<close> occurs in \<^verbatim>\<open>s\<close> at some position.\<close>

fun includes_str :: "string \<Rightarrow> string \<Rightarrow> bool" where
  "includes_str [] p = (p = [])"
| "includes_str (c # cs) p = (startsWith (c # cs) p \<or> includes_str cs p)"

section \<open>Cookie Translator: \<^verbatim>\<open>parseCookies\<close>\<close>

text \<open>
  The object literal that the callback returns. The \<^verbatim>\<open>__Host-\<close> and \<^verbatim>\<open>__Secure-\<close>
  branches set \<^verbatim>\<open>url\<close> and no \<^verbatim>\<open>domain\<close>; the regular branch sets \<^verbatim>\<open>domain\<close> and no
  \<^verbatim>\<open>url\<close>. An absent key is \<^const>\<open>None\<close>.
\<close>

record cookie =
  cookie_name :: string
  cookie_value :: string
  cookie_url :: "string option"
  cookie_domain :: "string option"
  cookie_path :: string
  cookie_secure :: bool

text \<open>
  The callback of \<^verbatim>\<open>.map\<close>; \<^const>\<open>None\<close> is its \<^verbatim>\<open>null\<close>. The destructuring
  \<^verbatim>\<open>[name, ...valueParts]\<close> of an empty array would leave \<^verbatim>\<open>name\<close> undefined, and
  \<^verbatim>\<open>name?.trim()\<close> undefined, hence falsy: that is the first branch of the case.
  \<^verbatim>\<open>cookieValue || ''\<close> is \<^verbatim>\<open>cookieValue\<close>, since the only falsy string is the empty one.
\<close>

definition parseCookie :: "string \<Rightarrow> bool \<Rightarrow> string \<Rightarrow> string \<Rightarrow> cookie option" where
  "parseCookie domain isSecure baseUrl cookie =
     (let trimmed = trim cookie in
      if trimmed = [] \<or> \<not> includes_str trimmed ''='' then None
      else
        (case split CHR ''='' trimmed of
          [] \<Rightarrow> None
        | name # valueParts \<Rightarrow>
            (let cookieName = trim name;
                 cookieValue = join ''='' valueParts in
             if cookieName = [] then None
             else if startsWith cookieName ''__Host-'' then
               Some \<lparr>cookie_name = cookieName,
                     cookie_value = (if cookieValue = [] then [] else cookieValue),
                     cookie_url = Some baseUrl, cookie_domain = None,
                     cookie_path = ''/'', cookie_secure = True\<rparr>
             else if startsWith cookieName ''__Secure-'' then
               Some \<lparr>cookie_name = cookieName,
                     cookie_value = (if cookieValue = [] then [] else cookieValue),
                     cookie_url = Some baseUrl, cookie_domain = None,
                     cookie_path = ''/'', cookie_secure = True\<rparr>
             else
               Some \<lparr>cookie_name = cookieName,
                     cookie_value = (if cookieValue = [] then [] else cookieValue),
                     cookie_url = None, cookie_domain = Some domain,
                     cookie_path = ''/'', cookie_secure = isSecure\<rparr>)))"

text \<open>\<^verbatim>\<open>.filter((cookie) => cookie !== null)\<close> on the mapped array.\<close>

fun filterNonNull :: "'a option list \<Rightarrow> 'a list" where
  "filterNonNull [] = []"
| "filterNonNull (None # xs) = filterNonNull xs"
| "filterNonNull (Some x # xs) = x # filterNonNull xs"

definition parseCookies :: "string \<Rightarrow> string \<Rightarrow> bool \<Rightarrow> string \<Rightarrow> cookie list" where
  "parseCookies cookieHeader domain isSecure baseUrl =
     filterNonNull (map (parseCookie domain isSecure baseUrl) (split CHR '';'' cookieHeader))"


text \<open>
  The reading of the Cookie Translator's contract that the code is compared with: the
  name of a pair is the trimmed text before its first \<^verbatim>\<open>=\<close>, its value is all that
  follows that \<^verbatim>\<open>=\<close>, and a pair is valid when it has an \<^verbatim>\<open>=\<close> and a name.
\<close>

definition pairName :: "string \<Rightarrow> string" where
  "pairName pair = trim (takeWhile (\<lambda>c. c \<noteq> CHR ''='') (trim pair))"

definition pairValue :: "string \<Rightarrow> string" where
  "pairValue pair = tl (dropWhile (\<lambda>c. c \<noteq> CHR ''='') (trim pair))"

definition validPair :: "string \<Rightarrow> bool" where
  "validPair pair \<longleftrightarrow> CHR ''='' \<in> set pair \<and> pairName pair \<noteq> []"

text \<open>The prefix rule table, as a predicate on one produced record.\<close>

definition prefixRule :: "string \<Rightarrow> bool \<Rightarrow> string \<Rightarrow> cookie \<Rightarrow> bool" where
  "prefixRule domain isSecure baseUrl r \<longleftrightarrow>
     cookie_path r = ''/'' \<and>
     (if startsWith (cookie_name r) ''__Host-'' then
        cookie_url r = Some baseUrl \<and> cookie_domain r = None \<and> cookie_secure r
      else if startsWith (cookie_name r) ''__Secure-'' then
        cookie_url r = Some baseUrl \<and> cookie_secure r
      else
        cookie_url r = None \<and> cookie_domain r = Some domain \<and> cookie_secure r = isSecure)"

section \<open>Download file name\<close>

text \<open>\<^verbatim>\<open>s.replace(/\//g, '-')\<close>: every slash becomes a hyphen.\<close>

definition replaceSlashes :: "string \<Rightarrow> string" where
  "replaceSlashes s = map (\<lambda>c. if c = CHR ''/'' then CHR ''-'' else c) s"

text \<open>\<^verbatim>\<open>s.replace(/^-/, '')\<close>: one hyphen at the start is dropped.\<close>

definition stripLeadingHyphen :: "string \<Rightarrow> string" where
  "stripLeadingHyphen s = (case s of [] \<Rightarrow> [] | c # cs \<Rightarrow> if c = CHR ''-'' then cs else s)"

text \<open>\<^verbatim>\<open>a || b\<close> on strings: the empty string is the only falsy one.\<close>

definition orElse :: "string \<Rightarrow> string \<Rightarrow> string" where
  "orElse a b = (if a = [] then b else a)"

text \<open>
  Line 148 of the route handler, and the same expression in \<^verbatim>\<open>ExportButton\<close>:
  \<^verbatim>\<open>path.replace(/\//g, '-').replace(/^-/, '') || 'document'\<close>.
\<close>

definition deriveFilename :: "string \<Rightarrow> string" where
  "deriveFilename path = orElse (stripLeadingHyphen (replaceSlashes path)) ''document''"

text \<open>The \<^verbatim>\<open>Content-Disposition\<close> header of the route handler's response.\<close>

definition contentDisposition :: "string \<Rightarrow> string" where
  "contentDisposition path =
     ''attachment; filename='' @ [CHR 0x22] @ deriveFilename path @ ''.pdf'' @ [CHR 0x22]"

text \<open>
  \<^verbatim>\<open>a.download\<close> in \<^verbatim>\<open>ExportButton\<close>. The \<^verbatim>\<open>filename\<close> prop is optional: \<^const>\<open>None\<close> is
  undefined, and like the empty string it is falsy.
\<close>

definition downloadName :: "string option \<Rightarrow> string \<Rightarrow> string" where
  "downloadName filename currentPath =
     (case filename of
        None \<Rightarrow> deriveFilename currentPath @ ''.pdf''
      | Some f \<Rightarrow> if f = [] then deriveFilename currentPath @ ''.pdf'' else f @ ''.pdf'')"

section \<open>Configuration: \<^verbatim>\<open>createPdfExportHandler\<close>, lines 47 to 66\<close>

text \<open>
  An optional property of an object literal is \<^term>\<open>Absent\<close> or \<^term>\<open>Present v\<close>. A property
  may be present and hold \<^verbatim>\<open>undefined\<close>, which object spread copies like any other
  value: so the value of an optional field is an \<^typ>\<open>'a option\<close>, with \<^const>\<open>None\<close> for
  \<^verbatim>\<open>undefined\<close>. Numbers are \<^typ>\<open>real\<close>.
\<close>

datatype 'a optional = Absent | Present 'a

type_synonym 'a field = "'a option optional"

text \<open>One key of \<^verbatim>\<open>{ ...a, ...b }\<close>: the key of \<^verbatim>\<open>b\<close> wins when \<^verbatim>\<open>b\<close> has it.\<close>

definition spreadKey :: "'a optional \<Rightarrow> 'a optional \<Rightarrow> 'a optional" where
  "spreadKey a b = (case b of Absent \<Rightarrow> a | Present v \<Rightarrow> Present v)"

record margin_box =
  margin_top :: "real field"
  margin_right :: "real field"
  margin_bottom :: "real field"
  margin_left :: "real field"

definition spreadMargins :: "margin_box \<Rightarrow> margin_box \<Rightarrow> margin_box" where
  "spreadMargins a b =
     \<lparr>margin_top = spreadKey (margin_top a) (margin_top b),
      margin_right = spreadKey (margin_right a) (margin_right b),
      margin_bottom = spreadKey (margin_bottom a) (margin_bottom b),
      margin_left = spreadKey (margin_left a) (margin_left b)\<rparr>"

text \<open>
  \<^verbatim>\<open>PdfExportOptions\<close>. The two flags carry a suffix: \<^verbatim>\<open>expandAccordions\<close> and
  \<^verbatim>\<open>triggerLazyImages\<close> are also the names of functions of the route handler.
  The resolved \<^verbatim>\<open>config\<close> is an object of the same shape.
\<close>

record options =
  contentSelector :: "string field"
  removeSelectors :: "string list field"
  expandAccordions_flag :: "bool field"
  accordionTriggerSelectors :: "string list field"
  accordionContentSelectors :: "string list field"
  triggerLazyImages_flag :: "bool field"
  pageWidth :: "real field"
  margins :: "margin_box field"
  timeout :: "real field"
  puppeteerOptions :: "(string \<times> string) list field"
  beforePdfGeneration :: "string field"

text \<open>The empty object literal \<^verbatim>\<open>{}\<close>.\<close>

definition emptyOptions :: options where
  "emptyOptions =
     \<lparr>contentSelector = Absent, removeSelectors = Absent, expandAccordions_flag = Absent,
      accordionTriggerSelectors = Absent, accordionContentSelectors = Absent,
      triggerLazyImages_flag = Absent, pageWidth = Absent, margins = Absent,
      timeout = Absent, puppeteerOptions = Absent, beforePdfGeneration = Absent\<rparr>"

definition emptyMargins :: margin_box where
  "emptyMargins =
     \<lparr>margin_top = Absent, margin_right = Absent, margin_bottom = Absent, margin_left = Absent\<rparr>"

text \<open>\<^verbatim>\<open>{ ...a, ...b }\<close> on two option objects.\<close>

definition spreadOptions :: "options \<Rightarrow> options \<Rightarrow> options" where
  "spreadOptions a b =
     \<lparr>contentSelector = spreadKey (contentSelector a) (contentSelector b),
      removeSelectors = spreadKey (removeSelectors a) (removeSelectors b),
      expandAccordions_flag = spreadKey (expandAccordions_flag a) (expandAccordions_flag b),
      accordionTriggerSelectors =
        spreadKey (accordionTriggerSelectors a) (accordionTriggerSelectors b),
      accordionContentSelectors =
        spreadKey (accordionContentSelectors a) (accordionContentSelectors b),
      triggerLazyImages_flag = spreadKey (triggerLazyImages_flag a) (triggerLazyImages_flag b),
      pageWidth = spreadKey (pageWidth a) (pageWidth b),
      margins = spreadKey (margins a) (margins b),
      timeout = spreadKey (timeout a) (timeout b),
      puppeteerOptions = spreadKey (puppeteerOptions a) (puppeteerOptions b),
      beforePdfGeneration = spreadKey (beforePdfGeneration a) (beforePdfGeneration b)\<rparr>"

text \<open>\<^verbatim>\<open>defaultOptions.margins\<close> and \<^verbatim>\<open>defaultOptions\<close>, lines 6 to 23.\<close>

definition defaultMargins :: margin_box where
  "defaultMargins =
     \<lparr>margin_top = Present (Some 30), margin_right = Present (Some 30),
      margin_bottom = Present (Some 30), margin_left = Present (Some 30)\<rparr>"

definition defaultOptions :: options where
  "defaultOptions =
     \<lparr>contentSelector = Present (Some ''article''),
      removeSelectors = Present (Some [''#nd-sidebar'', ''#nd-toc'', ''nav'', ''.print-hidden'']),
      expandAccordions_flag = Present (Some True),
      accordionTriggerSelectors = Present (Some
        [''button[data-state=\"closed\"]'', ''[data-state=\"closed\"] > button'',
         ''[data-state=\"closed\"][role=\"button\"]'']),
      accordionContentSelectors = Present (Some
        [''[data-radix-accordion-content]'', ''[data-radix-collapsible-content]'']),
      triggerLazyImages_flag = Present (Some True),
      pageWidth = Present (Some 850),
      margins = Present (Some defaultMargins),
      timeout = Present (Some 30000),
      puppeteerOptions = Absent,
      beforePdfGeneration = Absent\<rparr>"

text \<open>The \<^verbatim>\<open>presets\<close> table of \<^verbatim>\<open>types.ts\<close>: each preset has exactly these four keys.\<close>

record preset =
  preset_contentSelector :: string
  preset_removeSelectors :: "string list"
  preset_accordionTriggerSelectors :: "string list"
  preset_accordionContentSelectors :: "string list"

datatype presetName = fumadocs | docusaurus | nextra

fun presets :: "presetName \<Rightarrow> preset" where
  "presets fumadocs =
     \<lparr>preset_contentSelector = ''article'',
      preset_removeSelectors = [''#nd-sidebar'', ''#nd-toc'', ''nav'', ''.print-hidden''],
      preset_accordionTriggerSelectors =
        [''button[data-state=\"closed\"]'', ''[data-state=\"closed\"] > button'',
         ''[data-state=\"closed\"][role=\"button\"]''],
      preset_accordionContentSelectors =
        [''[data-radix-accordion-content]'', ''[data-radix-collapsible-content]'']\<rparr>"
| "presets docusaurus =
     \<lparr>preset_contentSelector = ''article'',
      preset_removeSelectors =
        [''.theme-doc-sidebar-container'', ''.table-of-contents'', ''nav'', ''.print-hidden''],
      preset_accordionTriggerSelectors =
        [''.collapsible-button'', ''button[aria-expanded=\"false\"]''],
      preset_accordionContentSelectors = [''.collapsible-content'']\<rparr>"
| "presets nextra =
     \<lparr>preset_contentSelector = ''article'',
      preset_removeSelectors =
        [''nav'', ''aside'', ''.nextra-sidebar'', ''.nextra-toc'', ''.print-hidden''],
      preset_accordionTriggerSelectors = [''button[data-state=\"closed\"]''],
      preset_accordionContentSelectors = [''[data-radix-collapsible-content]'']\<rparr>"

text \<open>\<^verbatim>\<open>{ ...preset }\<close>: the preset's four keys, as an options object.\<close>

definition spreadPreset :: "preset \<Rightarrow> options" where
  "spreadPreset p =
     emptyOptions
       \<lparr>contentSelector := Present (Some (preset_contentSelector p)),
        removeSelectors := Present (Some (preset_removeSelectors p)),
        accordionTriggerSelectors := Present (Some (preset_accordionTriggerSelectors p)),
        accordionContentSelectors := Present (Some (preset_accordionContentSelectors p))\<rparr>"

text \<open>
  The argument of \<^verbatim>\<open>createPdfExportHandler\<close>: nothing, a preset name or an options
  object. \<^verbatim>\<open>[...xs]\<close> copies an array; as a value the copy is \<^verbatim>\<open>xs\<close>.
\<close>

datatype handlerArg = NoArg | PresetArg presetName | OptionsArg options

definition copyArray :: "'a list \<Rightarrow> 'a list" where
  "copyArray xs = xs"

definition resolveOptions :: "handlerArg \<Rightarrow> options" where
  "resolveOptions arg =
     (case arg of
        PresetArg n \<Rightarrow>
          (let preset = presets n in
           (spreadPreset preset)
             \<lparr>removeSelectors := Present (Some (copyArray (preset_removeSelectors preset))),
              accordionTriggerSelectors :=
                Present (Some (copyArray (preset_accordionTriggerSelectors preset))),
              accordionContentSelectors :=
                Present (Some (copyArray (preset_accordionContentSelectors preset)))\<rparr>)
      | OptionsArg opts \<Rightarrow> opts
      | NoArg \<Rightarrow> emptyOptions)"

text \<open>
  \<^verbatim>\<open>...resolvedOptions.margins\<close>: spreading an absent or undefined value adds no key.
\<close>

definition marginsToSpread :: "options \<Rightarrow> margin_box" where
  "marginsToSpread opts =
     (case margins opts of Present (Some m) \<Rightarrow> m | _ \<Rightarrow> emptyMargins)"

definition resolveConfig :: "options \<Rightarrow> options" where
  "resolveConfig resolvedOptions =
     (spreadOptions defaultOptions resolvedOptions)
       \<lparr>margins := Present (Some (spreadMargins defaultMargins (marginsToSpread resolvedOptions)))\<rparr>"

text \<open>
  What an options object with the preset's field values and further explicit fields
  is: \<^verbatim>\<open>{ ...presets[n], ...explicit }\<close>.
\<close>

definition presetWith :: "presetName \<Rightarrow> options \<Rightarrow> options" where
  "presetWith n explicit = spreadOptions (spreadPreset (presets n)) explicit"

section \<open>The page: elements, selectors and styles\<close>

text \<open>
  The code that runs in the page (the functions given to \<^verbatim>\<open>page.evaluate\<close>) works on
  the DOM. An element has a tag name, attributes, the declarations of its style
  attribute (\<^verbatim>\<open>el.style\<close>, here \<^term>\<open>inline\<close>), the declarations that the page's style
  sheets make for it (\<^term>\<open>sheet\<close>) and child elements. A declaration is a value, normal
  or marked \<^verbatim>\<open>!important\<close>. Text nodes are left out: no statement of the sanitizer
  reads or counts them.
\<close>

datatype declared = Normal string | Important string

datatype element =
  Element (tagName: string) (attributes: "(string \<times> string) list")
    (sheet: "(string \<times> declared) list") (inline: "(string \<times> declared) list")
    (children: "element list")

text \<open>
  A parsed selector is the set of elements it matches. This covers the selectors whose
  match is decided by the element and what it contains (type, id, class and attribute
  selectors, their compounds and lists), which is what the defaults and the presets
  use for the content container, the removals and the accordion contents.
\<close>

type_synonym selector = "element \<Rightarrow> bool"



definition typeSelector :: "string \<Rightarrow> selector" where
  "typeSelector t el \<longleftrightarrow> tagName el = t"





text \<open>The descendants of an element in document order: \<^verbatim>\<open>el.querySelectorAll('*')\<close>.\<close>

fun descendants :: "element \<Rightarrow> element list" where
  "descendants (Element t a s i cs) = concat (map (\<lambda>c. c # descendants c) cs)"



text \<open>
  The document: the style attribute of the root element and the body. The head is not
  modelled, so \<^verbatim>\<open>document.querySelector\<close> looks at the body and below it.
\<close>

record document =
  documentElement_style :: "(string \<times> declared) list"
  body :: element

definition document_querySelector :: "document \<Rightarrow> selector \<Rightarrow> element option" where
  "document_querySelector doc sel =
     (case filter sel (body doc # descendants (body doc)) of [] \<Rightarrow> None | x # xs \<Rightarrow> Some x)"

text \<open>
  Computed style, by the cascade: an important declaration of the style attribute, else
  an important declaration of the style sheets, else a normal declaration of the style
  attribute, else a normal declaration of the style sheets, else the initial value of
  the property. Styles are kept by longhand property: assigning the shorthand
  \<^verbatim>\<open>overflow\<close> sets \<^verbatim>\<open>overflow-x\<close> and \<^verbatim>\<open>overflow-y\<close>. The other properties the
  sanitizer writes are never read back and keep the name they are written under.
\<close>

definition initialValue :: "string \<Rightarrow> string" where
  "initialValue p =
     (if p = ''position'' then ''static''
      else if p = ''overflow-x'' \<or> p = ''overflow-y'' then ''visible'' else [])"

fun importantValue :: "declared option \<Rightarrow> string option" where
  "importantValue (Some (Important v)) = Some v"
| "importantValue other = None"

fun normalValue :: "declared option \<Rightarrow> string option" where
  "normalValue (Some (Normal v)) = Some v"
| "normalValue other = None"

definition getComputedStyle :: "element \<Rightarrow> string \<Rightarrow> string" where
  "getComputedStyle el p =
     (case importantValue (map_of (inline el) p) of
        Some v \<Rightarrow> v
      | None \<Rightarrow>
         (case importantValue (map_of (sheet el) p) of
            Some v \<Rightarrow> v
          | None \<Rightarrow>
             (case normalValue (map_of (inline el) p) of
                Some v \<Rightarrow> v
              | None \<Rightarrow>
                 (case normalValue (map_of (sheet el) p) of
                    Some v \<Rightarrow> v
                  | None \<Rightarrow> initialValue p))))"

definition computedPosition :: "element \<Rightarrow> string" where
  "computedPosition el = getComputedStyle el ''position''"

definition computedOverflowY :: "element \<Rightarrow> string" where
  "computedOverflowY el = getComputedStyle el ''overflow-y''"

text \<open>\<^verbatim>\<open>getComputedStyle(el).overflow\<close>: one keyword when both axes agree, else two.\<close>

definition computedOverflow :: "element \<Rightarrow> string" where
  "computedOverflow el =
     (let x = getComputedStyle el ''overflow-x''; y = getComputedStyle el ''overflow-y'' in
      if x = y then x else x @ '' '' @ y)"

text \<open>
  \<^verbatim>\<open>el.style[p] = v\<close>, which puts a normal declaration in the place of any earlier one
  for the property, and \<^verbatim>\<open>el.style.cssText = ...\<close>, which replaces the attribute (the
  texts the sanitizer assigns have no \<^verbatim>\<open>!important\<close>).
\<close>

definition assignDecl ::
  "string \<Rightarrow> string \<Rightarrow> (string \<times> declared) list \<Rightarrow> (string \<times> declared) list" where
  "assignDecl p v ds =
     (if p = ''overflow'' then
        AList.update ''overflow-y'' (Normal v) (AList.update ''overflow-x'' (Normal v) ds)
      else AList.update p (Normal v) ds)"

fun assignDecls ::
  "(string \<times> string) list \<Rightarrow> (string \<times> declared) list \<Rightarrow> (string \<times> declared) list" where
  "assignDecls [] ds = ds"
| "assignDecls ((p, v) # rest) ds = assignDecls rest (assignDecl p v ds)"

fun assign :: "string \<Rightarrow> string \<Rightarrow> element \<Rightarrow> element" where
  "assign p v (Element t a s i cs) = Element t a s (assignDecl p v i) cs"

fun assignAll :: "(string \<times> string) list \<Rightarrow> element \<Rightarrow> element" where
  "assignAll ds (Element t a s i cs) = Element t a s (assignDecls ds i) cs"

fun setCssText :: "(string \<times> string) list \<Rightarrow> element \<Rightarrow> element" where
  "setCssText ds (Element t a s i cs) = Element t a s (assignDecls ds []) cs"

fun setChildren :: "element list \<Rightarrow> element \<Rightarrow> element" where
  "setChildren cs' (Element t a s i cs) = Element t a s i cs'"


section \<open>DOM Sanitizer: \<^verbatim>\<open>cleanupPageForPdf\<close>\<close>

text \<open>
  \<^verbatim>\<open>root.querySelectorAll(sel).forEach((el) => el.remove())\<close>. The node list is fixed
  before the first removal, so every descendant that matches in the tree as it stands
  goes, with all it contains; the root is not among its own descendants.
\<close>

fun removeMatching :: "selector \<Rightarrow> element \<Rightarrow> element" where
  "removeMatching sel (Element t a s i cs) =
     Element t a s i (map (removeMatching sel) (filter (\<lambda>c. \<not> sel c) cs))"

text \<open>
  \<^verbatim>\<open>root.querySelectorAll(sel).forEach((el) => f(el))\<close> for a callback that writes
  styles of \<^verbatim>\<open>el\<close> only.
\<close>

fun forEachMatching :: "selector \<Rightarrow> (element \<Rightarrow> element) \<Rightarrow> element \<Rightarrow> element" where
  "forEachMatching sel f (Element t a s i cs) =
     Element t a s i
       (map (\<lambda>c. if sel c then f (forEachMatching sel f c) else forEachMatching sel f c) cs)"




text \<open>The callback of the loop headed \<^verbatim>\<open>Fix fixed/sticky elements\<close>.\<close>

definition neutralize :: "element \<Rightarrow> element" where
  "neutralize el =
     (let el1 = (if computedPosition el = ''fixed'' \<or> computedPosition el = ''sticky''
                 then assign ''position'' ''static'' el else el) in
      if computedOverflow el1 = ''hidden'' \<or> computedOverflowY el1 = ''hidden''
      then assign ''overflow'' ''visible'' el1 else el1)"










fun removedCount :: "selector \<Rightarrow> element \<Rightarrow> nat" where
  "removedCount sel (Element t a s i cs) =
     sum_list (map (\<lambda>c. if sel c then Suc (length (descendants c)) else removedCount sel c) cs)"










section \<open>Height Measurer: the page function of lines 127 to 135\<close>

text \<open>
  The layout engine gives the height of an element's bounding rectangle and the scroll
  height of the body. Reading \<^verbatim>\<open>offsetHeight\<close> has no effect on the model.
\<close>

record layout =
  rectHeight :: "element \<Rightarrow> real"
  scrollHeight :: real

definition measureContentHeight :: "layout \<Rightarrow> document \<Rightarrow> selector \<Rightarrow> real" where
  "measureContentHeight l doc sel =
     (case document_querySelector doc sel of
        Some content \<Rightarrow> rectHeight l content + 40
      | None \<Rightarrow> scrollHeight l)"

section \<open>Accordion Expander: \<^verbatim>\<open>expandAccordions\<close>\<close>

text \<open>
  A thrown value is kept as the string that \<^verbatim>\<open>String(error)\<close> makes of it.
\<close>

type_synonym thrown = string








section \<open>Lazy-Content Forcer: the image phase of \<^verbatim>\<open>triggerLazyImages\<close>\<close>

text \<open>
  An image as the second page function sees it, and the event that the image fires
  once its source has been assigned again (none, when the load stalls).
\<close>

datatype imageEvent = LoadEvent | ErrorEvent | NoEvent

record image =
  img_complete :: bool
  img_naturalHeight :: nat
  img_loading :: "string option"
  img_src :: string
  img_event :: imageEvent

datatype 'a promise = Fulfilled 'a | Rejected thrown | Pending

text \<open>
  The promise made for one image: already resolved when the image is complete with a
  height; else resolved by \<^verbatim>\<open>onload\<close> or by \<^verbatim>\<open>onerror\<close>, the executor has no reject.
\<close>

definition awaitImage :: "image \<Rightarrow> unit promise" where
  "awaitImage img =
     (if img_complete img \<and> img_naturalHeight img > 0 then Fulfilled ()
      else (case img_event img of
              LoadEvent \<Rightarrow> Fulfilled ()
            | ErrorEvent \<Rightarrow> Fulfilled ()
            | NoEvent \<Rightarrow> Pending))"

text \<open>\<^verbatim>\<open>Promise.all\<close>: rejected by a rejected member, fulfilled when all members are.\<close>

fun promiseAll :: "'a promise list \<Rightarrow> 'a list promise" where
  "promiseAll [] = Fulfilled []"
| "promiseAll (Rejected error # ps) = Rejected error"
| "promiseAll (Fulfilled v # ps) =
     (case promiseAll ps of
        Fulfilled vs \<Rightarrow> Fulfilled (v # vs)
      | Rejected error \<Rightarrow> Rejected error
      | Pending \<Rightarrow> Pending)"
| "promiseAll (Pending # ps) =
     (case promiseAll ps of Rejected error \<Rightarrow> Rejected error | _ \<Rightarrow> Pending)"

text \<open>
  The second page function: the images after \<^verbatim>\<open>removeAttribute('loading')\<close>, and the
  promise that the function awaits.
\<close>

definition reloadImages :: "image list \<Rightarrow> image list \<times> unit list promise" where
  "reloadImages images =
     (let images' = map (\<lambda>img. img\<lparr>img_loading := None\<rparr>) images in
      (images', promiseAll (map awaitImage images')))"

text \<open>
  \<^verbatim>\<open>await page.evaluate(async () => ...)\<close> returns when the promise is fulfilled and
  throws when it is rejected; \<^const>\<open>None\<close>: it does neither while the promise is pending.
\<close>

definition awaitEvaluate :: "'a promise \<Rightarrow> (thrown + 'a) option" where
  "awaitEvaluate pr =
     (case pr of Fulfilled v \<Rightarrow> Some (Inr v) | Rejected error \<Rightarrow> Some (Inl error) | Pending \<Rightarrow> None)"

section \<open>Render Orchestrator: the request handler, lines 68 to 166\<close>

text \<open>
  The request as the handler reads it: the \<^verbatim>\<open>path\<close> search parameter, the protocol of
  \<^verbatim>\<open>nextUrl\<close>, and the \<^verbatim>\<open>host\<close> and \<^verbatim>\<open>cookie\<close> headers (\<^const>\<open>None\<close> where \<^verbatim>\<open>get\<close> gives
  \<^verbatim>\<open>null\<close>).
\<close>

record request =
  searchParam_path :: "string option"
  nextUrl_protocol :: string
  header_host :: "string option"
  header_cookie :: "string option"

text \<open>
  The browser, as far as the handler can tell: every call of puppeteer either returns
  or throws. The page functions (expansion, lazy images, sanitizer, custom transform,
  measurement) run in the page behind \<^verbatim>\<open>page.evaluate\<close>; here each is the outcome of
  its calls, so that the handler is verified for every behaviour of the stages.
  \<^term>\<open>close w k\<close> is the outcome of the call of \<^verbatim>\<open>browser.close()\<close> made after \<open>k\<close>
  earlier ones.
\<close>

record browser =
  launch :: "(string \<times> string) list \<Rightarrow> thrown + unit"
  newPage :: "thrown + unit"
  setCookie :: "cookie list \<Rightarrow> thrown + unit"
  setViewport :: "real option \<Rightarrow> real \<Rightarrow> thrown + unit"
  goto :: "string \<Rightarrow> real option \<Rightarrow> thrown + unit"
  runExpandAccordions :: "string list option \<Rightarrow> thrown + unit"
  runTriggerLazyImages :: "thrown + unit"
  runCleanupPageForPdf :: "options \<Rightarrow> thrown + unit"
  runBeforePdfGeneration :: "string \<Rightarrow> thrown + unit"
  runMeasure :: "string option \<Rightarrow> thrown + real"
  pdf :: "real option \<Rightarrow> real \<Rightarrow> margin_box option \<Rightarrow> thrown + string"
  close :: "nat \<Rightarrow> thrown + unit"

datatype response =
  JsonResponse nat "(string \<times> string) list"
| PdfResponse string "(string \<times> string) list"

text \<open>What a call of the handler comes to: a response, or a rejected promise.\<close>

datatype outcome = Returns response | Rejects thrown

text \<open>Sequencing inside \<^verbatim>\<open>try\<close>: the first throw ends the block.\<close>

definition bindTry :: "thrown + 'a \<Rightarrow> ('a \<Rightarrow> thrown + 'b) \<Rightarrow> thrown + 'b" where
  "bindTry r f = (case r of Inl error \<Rightarrow> Inl error | Inr v \<Rightarrow> f v)"

text \<open>Reading a property (absent reads as undefined) and the truth of a value.\<close>

definition valueOf :: "'a field \<Rightarrow> 'a option" where
  "valueOf f = (case f of Absent \<Rightarrow> None | Present v \<Rightarrow> v)"

definition truthyFlag :: "bool field \<Rightarrow> bool" where
  "truthyFlag f \<longleftrightarrow> valueOf f = Some True"

text \<open>\<^verbatim>\<open>{ headless: true, args: [...], ...config.puppeteerOptions }\<close>.\<close>

definition spreadObject ::
  "(string \<times> string) list \<Rightarrow> (string \<times> string) list \<Rightarrow> (string \<times> string) list" where
  "spreadObject a b = fold (\<lambda>(k, v). AList.update k v) b a"

definition launchOptions :: "options \<Rightarrow> (string \<times> string) list" where
  "launchOptions config =
     spreadObject
       [(''headless'', ''true''),
        (''args'', ''--no-sandbox,--disable-setuid-sandbox,--ignore-certificate-errors'')]
       (case valueOf (puppeteerOptions config) of None \<Rightarrow> [] | Some overrides \<Rightarrow> overrides)"

text \<open>\<^verbatim>\<open>request.headers.get('host') || 'localhost:3000'\<close> and \<^verbatim>\<open>host.split(':')[0]\<close>.\<close>

definition hostOf :: "request \<Rightarrow> string" where
  "hostOf request =
     (case header_host request of None \<Rightarrow> ''localhost:3000'' | Some h \<Rightarrow> orElse h ''localhost:3000'')"

definition domainOf :: "string \<Rightarrow> string" where
  "domainOf host = (case split CHR '':'' host of [] \<Rightarrow> [] | d # rest \<Rightarrow> d)"

text \<open>
  The statements of the \<^verbatim>\<open>try\<close> block from \<^verbatim>\<open>browser.newPage()\<close> to \<^verbatim>\<open>page.pdf(...)\<close>.
  \<^verbatim>\<open>protocol.replace(':', '')\<close> drops the first colon.
\<close>

definition renderPdf ::
  "browser \<Rightarrow> options \<Rightarrow> options \<Rightarrow> request \<Rightarrow> string \<Rightarrow> thrown + string" where
  "renderPdf w config resolvedOptions request path =
     (let protocol = remove1 CHR '':'' (nextUrl_protocol request);
          host = hostOf request;
          baseUrl = protocol @ ''://'' @ host;
          pageUrl = baseUrl @ path;
          cookieHeader = (case header_cookie request of None \<Rightarrow> [] | Some c \<Rightarrow> orElse c [])
      in
      bindTry (newPage w) (\<lambda>page.
      bindTry
        (if cookieHeader \<noteq> [] then
           (let domain = domainOf host;
                isSecure = (protocol = ''https'');
                cookies = parseCookies cookieHeader domain isSecure baseUrl
            in if length cookies > 0 then setCookie w cookies else Inr ())
         else Inr ()) (\<lambda>u1.
      bindTry (setViewport w (valueOf (pageWidth config)) 600) (\<lambda>u2.
      bindTry (goto w pageUrl (valueOf (timeout config))) (\<lambda>u3.
      bindTry
        (if truthyFlag (expandAccordions_flag config)
         then runExpandAccordions w (valueOf (accordionTriggerSelectors config))
         else Inr ()) (\<lambda>u4.
      bindTry
        (if truthyFlag (triggerLazyImages_flag config) then runTriggerLazyImages w
         else Inr ()) (\<lambda>u5.
      bindTry (runCleanupPageForPdf w config) (\<lambda>u6.
      bindTry
        (case valueOf (beforePdfGeneration resolvedOptions) of
           None \<Rightarrow> Inr ()
         | Some js \<Rightarrow> if js \<noteq> [] then runBeforePdfGeneration w js else Inr ()) (\<lambda>u7.
      bindTry (runMeasure w (valueOf (contentSelector config))) (\<lambda>contentHeight.
      pdf w (valueOf (pageWidth config)) (contentHeight + 60)
        (valueOf (margins config))))))))))))"

definition missingPathReport :: response where
  "missingPathReport = JsonResponse 400 [(''error'', ''Missing path parameter'')]"

definition failureReport :: "thrown \<Rightarrow> response" where
  "failureReport error =
     JsonResponse 500 [(''error'', ''Failed to generate PDF''), (''details'', error)]"

text \<open>
  The \<^verbatim>\<open>catch\<close> block. \<open>launched\<close> tells whether \<^verbatim>\<open>browser\<close> is defined, \<open>n\<close> counts the
  calls of \<^verbatim>\<open>browser.close()\<close> made so far. A throw of \<^verbatim>\<open>browser.close()\<close> inside the
  block escapes the handler.
\<close>

definition catchBlock :: "browser \<Rightarrow> bool \<Rightarrow> nat \<Rightarrow> thrown \<Rightarrow> nat \<times> outcome" where
  "catchBlock w launched n error =
     (if launched then
        (case close w n of
           Inl error' \<Rightarrow> (Suc n, Rejects error')
         | Inr u \<Rightarrow> (Suc n, Returns (failureReport error)))
      else (n, Returns (failureReport error)))"

text \<open>
  The handler: the number of calls of \<^verbatim>\<open>browser.close()\<close> and the outcome. A missing
  or empty \<^verbatim>\<open>path\<close> is falsy.
\<close>

definition handler :: "browser \<Rightarrow> options \<Rightarrow> options \<Rightarrow> request \<Rightarrow> nat \<times> outcome" where
  "handler w config resolvedOptions request =
     (case searchParam_path request of
        None \<Rightarrow> (0, Returns missingPathReport)
      | Some path \<Rightarrow>
          if path = [] then (0, Returns missingPathReport)
          else
            (case launch w (launchOptions config) of
               Inl error \<Rightarrow> catchBlock w False 0 error
             | Inr u \<Rightarrow>
                 (case renderPdf w config resolvedOptions request path of
                    Inl error \<Rightarrow> catchBlock w True 0 error
                  | Inr pdfBuffer \<Rightarrow>
                      (case close w 0 of
                         Inl error \<Rightarrow> catchBlock w True 1 error
                       | Inr u' \<Rightarrow>
                           (1, Returns (PdfResponse pdfBuffer
                              [(''Content-Type'', ''application/pdf''),
                               (''Content-Disposition'', contentDisposition path)]))))))"

definition createPdfExportHandler :: "browser \<Rightarrow> handlerArg \<Rightarrow> request \<Rightarrow> nat \<times> outcome" where
  "createPdfExportHandler w arg =
     (let resolvedOptions = resolveOptions arg;
          config = resolveConfig resolvedOptions
      in handler w config resolvedOptions)"

text \<open>Whether an outcome hands a PDF payload to the caller.\<close>

fun deliversPdf :: "outcome \<Rightarrow> bool" where
  "deliversPdf (Returns (PdfResponse b h)) = True"
| "deliversPdf other = False"

text \<open>
  The stages of the \<^verbatim>\<open>try\<close> block between the launch and the close, in the order in
  which the handler runs them, and for each stage the error that its call throws
  (\<^const>\<open>None\<close> when the call returns, or when the handler skips the stage). The values
  that the handler computes before the block are named as the source names them.
\<close>

datatype stage =
  PageCreation | CookieInjection | ViewportSetup | Navigation | Expansion | LazyForcing
| Sanitization | CustomTransform | Measurement | Rasterization

definition stages :: "stage list" where
  "stages =
     [PageCreation, CookieInjection, ViewportSetup, Navigation, Expansion, LazyForcing,
      Sanitization, CustomTransform, Measurement, Rasterization]"

definition thrownBy :: "thrown + 'a \<Rightarrow> thrown option" where
  "thrownBy r = (case r of Inl error \<Rightarrow> Some error | Inr v \<Rightarrow> None)"

definition protocolOf :: "request \<Rightarrow> string" where
  "protocolOf request = remove1 CHR '':'' (nextUrl_protocol request)"

definition baseUrlOf :: "request \<Rightarrow> string" where
  "baseUrlOf request = protocolOf request @ ''://'' @ hostOf request"

definition cookieHeaderOf :: "request \<Rightarrow> string" where
  "cookieHeaderOf request = (case header_cookie request of None \<Rightarrow> [] | Some c \<Rightarrow> orElse c [])"

definition forwardedCookies :: "request \<Rightarrow> cookie list" where
  "forwardedCookies request =
     parseCookies (cookieHeaderOf request) (domainOf (hostOf request))
       (protocolOf request = ''https'') (baseUrlOf request)"

fun stageThrows ::
  "browser \<Rightarrow> options \<Rightarrow> options \<Rightarrow> request \<Rightarrow> string \<Rightarrow> stage \<Rightarrow> thrown option" where
  "stageThrows w config resolvedOptions request path PageCreation = thrownBy (newPage w)"
| "stageThrows w config resolvedOptions request path CookieInjection =
     (if cookieHeaderOf request \<noteq> [] \<and> length (forwardedCookies request) > 0
      then thrownBy (setCookie w (forwardedCookies request)) else None)"
| "stageThrows w config resolvedOptions request path ViewportSetup =
     thrownBy (setViewport w (valueOf (pageWidth config)) 600)"
| "stageThrows w config resolvedOptions request path Navigation =
     thrownBy (goto w (baseUrlOf request @ path) (valueOf (timeout config)))"
| "stageThrows w config resolvedOptions request path Expansion =
     (if truthyFlag (expandAccordions_flag config)
      then thrownBy (runExpandAccordions w (valueOf (accordionTriggerSelectors config)))
      else None)"
| "stageThrows w config resolvedOptions request path LazyForcing =
     (if truthyFlag (triggerLazyImages_flag config) then thrownBy (runTriggerLazyImages w)
      else None)"
| "stageThrows w config resolvedOptions request path Sanitization =
     thrownBy (runCleanupPageForPdf w config)"
| "stageThrows w config resolvedOptions request path CustomTransform =
     (case valueOf (beforePdfGeneration resolvedOptions) of
        None \<Rightarrow> None
      | Some js \<Rightarrow> if js \<noteq> [] then thrownBy (runBeforePdfGeneration w js) else None)"
| "stageThrows w config resolvedOptions request path Measurement =
     thrownBy (runMeasure w (valueOf (contentSelector config)))"
| "stageThrows w config resolvedOptions request path Rasterization =
     (case runMeasure w (valueOf (contentSelector config)) of
        Inl error \<Rightarrow> None
      | Inr contentHeight \<Rightarrow>
          thrownBy (pdf w (valueOf (pageWidth config)) (contentHeight + 60)
            (valueOf (margins config))))"

text \<open>
  Stage \<open>s\<close> is the first to throw, and throws \<open>error\<close>: every stage before it in the
  order returns or is skipped.
\<close>

definition throwsFirstAt ::
  "browser \<Rightarrow> options \<Rightarrow> options \<Rightarrow> request \<Rightarrow> string \<Rightarrow> stage \<Rightarrow> thrown \<Rightarrow> bool" where
  "throwsFirstAt w config resolvedOptions request path s error \<longleftrightarrow>
     stageThrows w config resolvedOptions request path s = Some error \<and>
     list_all (\<lambda>s'. stageThrows w config resolvedOptions request path s' = None)
       (takeWhile (\<lambda>s'. s' \<noteq> s) stages)"

text \<open>
  A browser in which every call returns, and a request for \<^verbatim>\<open>/guides/setup\<close> with a
  session cookie: the inputs on which the handler is run below.
\<close>

definition steadyBrowser :: browser where
  "steadyBrowser =
     \<lparr>launch = (\<lambda>opts. Inr ()), newPage = Inr (), setCookie = (\<lambda>cookies. Inr ()),
      setViewport = (\<lambda>width height. Inr ()), goto = (\<lambda>url t. Inr ()),
      runExpandAccordions = (\<lambda>selectors. Inr ()), runTriggerLazyImages = Inr (),
      runCleanupPageForPdf = (\<lambda>config. Inr ()), runBeforePdfGeneration = (\<lambda>js. Inr ()),
      runMeasure = (\<lambda>selector. Inr 1200), pdf = (\<lambda>width height m. Inr ''%PDF-1.4''),
      close = (\<lambda>k. Inr ())\<rparr>"

definition setupRequest :: request where
  "setupRequest =
     \<lparr>searchParam_path = Some ''/guides/setup'', nextUrl_protocol = ''https:'',
      header_host = Some ''docs.example.com:443'', header_cookie = Some ''sid=abc; __Host-t=1''\<rparr>"

section \<open>Properties of the Cookie Translator\<close>

lemma split_not_Nil: "split sep s \<noteq> []"
  by (induction s) (auto split: list.splits)

lemma includes_str_single: "includes_str s [c] \<longleftrightarrow> c \<in> set s"
  by (induction s) (auto simp: startsWith_def)

lemma split_takeWhile:
  "split sep s = takeWhile (\<lambda>c. c \<noteq> sep) s #
     (case dropWhile (\<lambda>c. c \<noteq> sep) s of [] \<Rightarrow> [] | x # r \<Rightarrow> split sep r)"
  by (induction s) (auto split: list.splits)

lemma join_Cons_Cons: "join sep ((c # p) # ps) = c # join sep (p # ps)"
  by (cases ps) auto

lemma join_split: "join [sep] (split sep s) = s"
  by (induction s) (auto simp: join_Cons_Cons split: list.splits)

lemma tl_split:
  "tl (split sep s) =
     (case dropWhile (\<lambda>c. c \<noteq> sep) s of [] \<Rightarrow> [] | x # r \<Rightarrow> split sep r)"
  by (subst split_takeWhile) simp

lemma join_tl_split: "join [sep] (tl (split sep s)) = tl (dropWhile (\<lambda>c. c \<noteq> sep) s)"
proof (cases "dropWhile (\<lambda>c. c \<noteq> sep) s")
  case Nil
  show ?thesis by (simp only: tl_split Nil list.case join.simps list.sel)
next
  case (Cons x r)
  show ?thesis by (simp only: tl_split Cons list.case join_split list.sel)
qed

lemma set_dropWhile_keep: "\<not> P x \<Longrightarrow> x \<in> set (dropWhile P xs) \<longleftrightarrow> x \<in> set xs"
  by (induction xs) auto

lemma set_trim_keep: "\<not> isWhitespace x \<Longrightarrow> x \<in> set (trim s) \<longleftrightarrow> x \<in> set s"
  by (simp add: trim_def set_dropWhile_keep)

lemma parseCookie_None: "\<not> validPair pair \<Longrightarrow> parseCookie d s u pair = None"
  using set_trim_keep[of "CHR ''=''" pair] split_takeWhile[of "CHR ''=''" "trim pair"]
  by (auto simp: parseCookie_def validPair_def pairName_def includes_str_single isWhitespace_def Let_def
      split: list.splits)

lemma parseCookie_Some:
  assumes "validPair pair"
  shows "\<exists>r. parseCookie d s u pair = Some r \<and> cookie_name r = pairName pair \<and>
     cookie_value r = pairValue pair \<and> prefixRule d s u r"
proof -
  have eq: "CHR ''='' \<in> set (trim pair)"
    using assms set_trim_keep[of "CHR ''=''" pair] by (simp add: validPair_def isWhitespace_def)
  then have ne: "trim pair \<noteq> []" by auto
  obtain rest where sp: "split CHR ''='' (trim pair) = takeWhile (\<lambda>c. c \<noteq> CHR ''='') (trim pair) # rest"
    using split_takeWhile[of "CHR ''=''" "trim pair"] by blast
  have rest: "rest = tl (split CHR ''='' (trim pair))" using sp by simp
  have v: "join ''='' rest = pairValue pair"
    unfolding rest pairValue_def by (rule join_tl_split)
  have n: "trim (takeWhile (\<lambda>c. c \<noteq> CHR ''='') (trim pair)) = pairName pair" by (simp add: pairName_def)
  have nn: "pairName pair \<noteq> []" using assms by (simp add: validPair_def)
  show ?thesis
    using eq ne nn
    by (simp add: parseCookie_def Let_def includes_str_single sp v n prefixRule_def)
qed

lemma parse_valid_pairs:
  "map (\<lambda>r. (cookie_name r, cookie_value r)) (filterNonNull (map (parseCookie d s u) ps)) =
     map (\<lambda>pair. (pairName pair, pairValue pair)) (filter validPair ps)"
proof (induction ps)
  case Nil
  show ?case by simp
next
  case (Cons p ps)
  show ?case
  proof (cases "validPair p")
    case True
    from parseCookie_Some[OF True, of d s u] obtain r where
      "parseCookie d s u p = Some r" "cookie_name r = pairName p" "cookie_value r = pairValue p"
      by blast
    with True Cons show ?thesis by simp
  next
    case False
    with parseCookie_None[OF False, of d s u] Cons show ?thesis by simp
  qed
qed

lemma parse_rules:
  "r \<in> set (filterNonNull (map (parseCookie d s u) ps)) \<Longrightarrow> prefixRule d s u r"
proof (induction ps)
  case Nil
  then show ?case by simp
next
  case (Cons p ps)
  show ?case
  proof (cases "validPair p")
    case True
    from parseCookie_Some[OF True, of d s u] obtain r' where
      "parseCookie d s u p = Some r'" "prefixRule d s u r'" by blast
    with Cons show ?thesis by auto
  next
    case False
    with parseCookie_None[OF False, of d s u] Cons show ?thesis by simp
  qed
qed

text \<open>
  Claim C1. For every cookie header, host, connection flag and base URL,
  \<^const>\<open>parseCookies\<close> returns one record per valid pair, in the order of the header
  (the names of the records are the names of the valid pairs); every record follows the
  prefix rule table: path \<^verbatim>\<open>/\<close>, and for a name that begins with \<^verbatim>\<open>__Host-\<close> the base
  URL, no domain and secure true, for a name that begins with \<^verbatim>\<open>__Secure-\<close> the base URL
  and secure true, for any other name the host as domain and the connection's flag as
  secure; and a pair without \<^verbatim>\<open>=\<close> or without a name gives no record. The function is
  total: no input makes it raise.
\<close>

theorem parseCookies_prefix_rules:
  "map cookie_name (parseCookies h d s u) = map pairName (filter validPair (split CHR '';'' h)) \<and>
   (\<forall>r \<in> set (parseCookies h d s u). prefixRule d s u r) \<and>
   (\<forall>pair \<in> set (split CHR '';'' h). \<not> validPair pair \<longrightarrow> parseCookie d s u pair = None)"
proof -
  have "map cookie_name (parseCookies h d s u) =
      map fst (map (\<lambda>r. (cookie_name r, cookie_value r)) (parseCookies h d s u))"
    by (simp add: comp_def)
  also have "\<dots> = map pairName (filter validPair (split CHR '';'' h))"
    unfolding parseCookies_def parse_valid_pairs by (simp add: comp_def)
  finally show ?thesis
    by (simp add: parseCookies_def parse_rules parseCookie_None)
qed

text \<open>The translator on a header with every kind of pair.\<close>

lemma parse_example:
  "parseCookies ''__Host-a=1; b=2=3; junk; =x; __Secure-c=; d = 4 '' ''example.com'' False ''https://example.com'' =
   [\<lparr>cookie_name = ''__Host-a'', cookie_value = ''1'',
     cookie_url = Some ''https://example.com'', cookie_domain = None,
     cookie_path = ''/'', cookie_secure = True\<rparr>,
  \<lparr>cookie_name = ''b'', cookie_value = ''2=3'', cookie_url = None,
     cookie_domain = Some ''example.com'', cookie_path = ''/'',
     cookie_secure = False\<rparr>,
  \<lparr>cookie_name = ''__Secure-c'', cookie_value = [],
     cookie_url = Some ''https://example.com'', cookie_domain = None,
     cookie_path = ''/'', cookie_secure = True\<rparr>,
  \<lparr>cookie_name = ''d'', cookie_value = '' 4'', cookie_url = None,
     cookie_domain = Some ''example.com'', cookie_path = ''/'',
     cookie_secure = False\<rparr>]"
  by (simp add: parseCookies_def parseCookie_def trim_def isWhitespace_def startsWith_def Let_def)

theorem parseCookies_prefix_rules_witness:
  "map cookie_name (parseCookies ''__Host-a=1; b=2; junk; __Secure-c=3'' ''example.com'' False ''https://example.com'')
     = [''__Host-a'', ''b'', ''__Secure-c''] \<and>
   list_all (prefixRule ''example.com'' False ''https://example.com'')
     (parseCookies ''__Host-a=1; b=2; junk; __Secure-c=3'' ''example.com'' False ''https://example.com'') \<and>
   \<not> validPair '' junk'' \<and>
   parseCookie ''example.com'' False ''https://example.com'' '' junk'' = None"
  using parseCookies_prefix_rules[of "''__Host-a=1; b=2; junk; __Secure-c=3''" "''example.com''" False "''https://example.com''"]
  by (simp add: list_all_iff validPair_def pairName_def trim_def isWhitespace_def)

text \<open>
  Claim C9. \<^const>\<open>parseCookies\<close> splits a pair at its first \<^verbatim>\<open>=\<close> only: for every pair
  that gives a record, the name of the record is the trimmed text before the first
  \<^verbatim>\<open>=\<close> of the trimmed pair and the value is all that follows it, further \<^verbatim>\<open>=\<close>
  included; when nothing follows, the value is the empty string.
\<close>

theorem parseCookies_first_equals:
  "map (\<lambda>r. (cookie_name r, cookie_value r)) (parseCookies h d s u) =
     map (\<lambda>pair. (trim (takeWhile (\<lambda>c. c \<noteq> CHR ''='') (trim pair)),
                   tl (dropWhile (\<lambda>c. c \<noteq> CHR ''='') (trim pair))))
       (filter validPair (split CHR '';'' h))"
  unfolding parseCookies_def parse_valid_pairs by (simp add: pairName_def pairValue_def)

theorem parseCookies_first_equals_witness:
  "map (\<lambda>r. (cookie_name r, cookie_value r))
     (parseCookies ''name=a=b; k=; x ==y='' ''example.com'' True ''https://example.com'') =
   [(''name'', ''a=b''), (''k'', []), (''x'', ''=y='')]"
  using parseCookies_first_equals[of "''name=a=b; k=; x ==y=''" "''example.com''" True
      "''https://example.com''"]
  by (simp add: validPair_def pairName_def trim_def isWhitespace_def)

section \<open>Properties of the download file name\<close>

lemma deriveFilename_no_slash: "CHR ''/'' \<notin> set (deriveFilename path)"
proof -
  have a: "CHR ''/'' \<notin> set (replaceSlashes path)"
    by (auto simp: replaceSlashes_def)
  have b: "set (stripLeadingHyphen s) \<subseteq> set s" for s
    by (auto simp: stripLeadingHyphen_def split: list.splits if_splits)
  show ?thesis
    using a b[of "replaceSlashes path"] by (auto simp: deriveFilename_def orElse_def)
qed

text \<open>
  Claim C6. The download name derived from a path is the path with every slash turned
  into a hyphen, one leading hyphen dropped and \<^verbatim>\<open>.pdf\<close> appended, with
  \<^verbatim>\<open>document.pdf\<close> when nothing is left: \<^verbatim>\<open>/guides/setup\<close> gives
  \<^verbatim>\<open>guides-setup.pdf\<close> and \<^verbatim>\<open>/\<close> gives \<^verbatim>\<open>document.pdf\<close>. The name holds no slash, and
  the route handler's \<^verbatim>\<open>Content-Disposition\<close> carries the same name. A button with an
  explicit non-empty file name, such as \<^verbatim>\<open>report\<close>, downloads under that name plus
  \<^verbatim>\<open>.pdf\<close> whatever the path.
\<close>

theorem download_filename:
  "downloadName None ''/guides/setup'' = ''guides-setup.pdf'' \<and>
   downloadName None ''/'' = ''document.pdf'' \<and>
   downloadName None path =
     (let replaced = map (\<lambda>c. if c = CHR ''/'' then CHR ''-'' else c) path;
          stripped = (if replaced \<noteq> [] \<and> hd replaced = CHR ''-'' then tl replaced else replaced)
      in (if stripped = [] then ''document'' else stripped) @ ''.pdf'') \<and>
   CHR ''/'' \<notin> set (downloadName None path) \<and>
   contentDisposition path =
     ''attachment; filename='' @ [CHR 0x22] @ downloadName None path @ [CHR 0x22] \<and>
   (f \<noteq> [] \<longrightarrow> downloadName (Some f) path = f @ ''.pdf'') \<and>
   downloadName (Some ''report'') path = ''report.pdf''"
proof -
  have 1: "downloadName None ''/guides/setup'' = ''guides-setup.pdf''"
    by (simp add: downloadName_def deriveFilename_def orElse_def stripLeadingHyphen_def
        replaceSlashes_def)
  have 2: "downloadName None ''/'' = ''document.pdf''"
    by (simp add: downloadName_def deriveFilename_def orElse_def stripLeadingHyphen_def
        replaceSlashes_def)
  have 3: "downloadName None path =
     (let replaced = map (\<lambda>c. if c = CHR ''/'' then CHR ''-'' else c) path;
          stripped = (if replaced \<noteq> [] \<and> hd replaced = CHR ''-'' then tl replaced else replaced)
      in (if stripped = [] then ''document'' else stripped) @ ''.pdf'')"
    by (cases path)
      (simp_all add: downloadName_def deriveFilename_def orElse_def stripLeadingHyphen_def
        replaceSlashes_def Let_def)
  have 4: "CHR ''/'' \<notin> set (downloadName None path)"
    using deriveFilename_no_slash[of path] by (simp add: downloadName_def)
  have 5: "contentDisposition path =
     ''attachment; filename='' @ [CHR 0x22] @ downloadName None path @ [CHR 0x22]"
    by (simp add: contentDisposition_def downloadName_def)
  have 6: "f \<noteq> [] \<longrightarrow> downloadName (Some f) path = f @ ''.pdf''"
    by (simp add: downloadName_def)
  have 7: "downloadName (Some ''report'') path = ''report.pdf''"
    by (simp add: downloadName_def)
  from 1 2 3 4 5 6 7 show ?thesis by blast
qed

theorem download_filename_witness:
  "downloadName None ''/docs/api/v2'' = ''docs-api-v2.pdf'' \<and>
   CHR ''/'' \<notin> set (downloadName None ''/docs/api/v2'') \<and>
   ''export'' \<noteq> [] \<and> downloadName (Some ''export'') ''/docs/api/v2'' = ''export.pdf''"
  using download_filename[of "''/docs/api/v2''" "''export''"]
  by (simp add: Let_def)

section \<open>Properties of the configuration\<close>

lemma resolveOptions_preset: "resolveOptions (PresetArg n) = spreadPreset (presets n)"
  by (simp add: resolveOptions_def spreadPreset_def copyArray_def Let_def)

lemma spreadKey_case:
  "spreadKey a b = (case b of Absent \<Rightarrow> a | Present v \<Rightarrow> Present v)"
  by (simp add: spreadKey_def)

lemma resolveConfig_fields:
  "contentSelector (resolveConfig opts) =
     spreadKey (Present (Some ''article'')) (contentSelector opts)"
  "removeSelectors (resolveConfig opts) =
     spreadKey (Present (Some [''#nd-sidebar'', ''#nd-toc'', ''nav'', ''.print-hidden'']))
       (removeSelectors opts)"
  "expandAccordions_flag (resolveConfig opts) =
     spreadKey (Present (Some True)) (expandAccordions_flag opts)"
  "accordionTriggerSelectors (resolveConfig opts) =
     spreadKey (accordionTriggerSelectors defaultOptions) (accordionTriggerSelectors opts)"
  "accordionContentSelectors (resolveConfig opts) =
     spreadKey (accordionContentSelectors defaultOptions) (accordionContentSelectors opts)"
  "triggerLazyImages_flag (resolveConfig opts) =
     spreadKey (Present (Some True)) (triggerLazyImages_flag opts)"
  "pageWidth (resolveConfig opts) = spreadKey (Present (Some 850)) (pageWidth opts)"
  "margins (resolveConfig opts) =
     Present (Some (spreadMargins defaultMargins (marginsToSpread opts)))"
  "timeout (resolveConfig opts) = spreadKey (Present (Some 30000)) (timeout opts)"
  "puppeteerOptions (resolveConfig opts) = spreadKey Absent (puppeteerOptions opts)"
  "beforePdfGeneration (resolveConfig opts) = spreadKey Absent (beforePdfGeneration opts)"
  by (simp_all add: resolveConfig_def spreadOptions_def defaultOptions_def)

lemma presetWith_fields:
  "contentSelector (presetWith n explicit) =
     spreadKey (Present (Some (preset_contentSelector (presets n)))) (contentSelector explicit)"
  "removeSelectors (presetWith n explicit) =
     spreadKey (Present (Some (preset_removeSelectors (presets n)))) (removeSelectors explicit)"
  "accordionTriggerSelectors (presetWith n explicit) =
     spreadKey (Present (Some (preset_accordionTriggerSelectors (presets n))))
       (accordionTriggerSelectors explicit)"
  "accordionContentSelectors (presetWith n explicit) =
     spreadKey (Present (Some (preset_accordionContentSelectors (presets n))))
       (accordionContentSelectors explicit)"
  "expandAccordions_flag (presetWith n explicit) = expandAccordions_flag explicit"
  "triggerLazyImages_flag (presetWith n explicit) = triggerLazyImages_flag explicit"
  "pageWidth (presetWith n explicit) = pageWidth explicit"
  "timeout (presetWith n explicit) = timeout explicit"
  by (simp_all add: presetWith_def spreadOptions_def spreadPreset_def emptyOptions_def
      spreadKey_def split: optional.split)

lemma preset_config:
  "resolveConfig (spreadPreset (presets n)) =
     defaultOptions
       \<lparr>contentSelector := Present (Some (preset_contentSelector (presets n))),
        removeSelectors := Present (Some (preset_removeSelectors (presets n))),
        accordionTriggerSelectors := Present (Some (preset_accordionTriggerSelectors (presets n))),
        accordionContentSelectors :=
          Present (Some (preset_accordionContentSelectors (presets n)))\<rparr>"
  by (simp add: resolveConfig_def spreadOptions_def spreadPreset_def
        emptyOptions_def defaultOptions_def spreadKey_def marginsToSpread_def spreadMargins_def
        emptyMargins_def defaultMargins_def)

text \<open>
  Claim C7. For every preset name, \<^verbatim>\<open>createPdfExportHandler\<close> with the name resolves to
  the configuration, and is the handler, that it is with an options object holding the
  preset's four fields; in that configuration the preset's fields stand in place of
  the defaults and every other field has its default; and in an options object made of
  the preset's fields and explicit fields, an explicit field wins over the preset's
  value and over the default.
\<close>

theorem preset_resolution:
  "resolveConfig (resolveOptions (PresetArg n)) =
     resolveConfig (resolveOptions (OptionsArg (spreadPreset (presets n)))) \<and>
   createPdfExportHandler w (PresetArg n) =
     createPdfExportHandler w (OptionsArg (spreadPreset (presets n))) \<and>
   resolveConfig (resolveOptions (PresetArg n)) =
     defaultOptions
       \<lparr>contentSelector := Present (Some (preset_contentSelector (presets n))),
        removeSelectors := Present (Some (preset_removeSelectors (presets n))),
        accordionTriggerSelectors := Present (Some (preset_accordionTriggerSelectors (presets n))),
        accordionContentSelectors :=
          Present (Some (preset_accordionContentSelectors (presets n)))\<rparr> \<and>
   (let config = resolveConfig (resolveOptions (OptionsArg (presetWith n explicit))) in
    contentSelector config =
      (case contentSelector explicit of
         Absent \<Rightarrow> Present (Some (preset_contentSelector (presets n)))
       | Present v \<Rightarrow> Present v) \<and>
    removeSelectors config =
      (case removeSelectors explicit of
         Absent \<Rightarrow> Present (Some (preset_removeSelectors (presets n)))
       | Present v \<Rightarrow> Present v) \<and>
    accordionTriggerSelectors config =
      (case accordionTriggerSelectors explicit of
         Absent \<Rightarrow> Present (Some (preset_accordionTriggerSelectors (presets n)))
       | Present v \<Rightarrow> Present v) \<and>
    accordionContentSelectors config =
      (case accordionContentSelectors explicit of
         Absent \<Rightarrow> Present (Some (preset_accordionContentSelectors (presets n)))
       | Present v \<Rightarrow> Present v) \<and>
    expandAccordions_flag config =
      (case expandAccordions_flag explicit of
         Absent \<Rightarrow> Present (Some True) | Present v \<Rightarrow> Present v) \<and>
    triggerLazyImages_flag config =
      (case triggerLazyImages_flag explicit of
         Absent \<Rightarrow> Present (Some True) | Present v \<Rightarrow> Present v) \<and>
    pageWidth config =
      (case pageWidth explicit of Absent \<Rightarrow> Present (Some 850) | Present v \<Rightarrow> Present v) \<and>
    timeout config =
      (case timeout explicit of Absent \<Rightarrow> Present (Some 30000) | Present v \<Rightarrow> Present v))"
proof -
  have a: "resolveOptions (OptionsArg (spreadPreset (presets n))) = resolveOptions (PresetArg n)"
    by (simp only: resolveOptions_preset) (simp add: resolveOptions_def)
  have c: "createPdfExportHandler w (PresetArg n) =
     createPdfExportHandler w (OptionsArg (spreadPreset (presets n)))"
    by (simp only: createPdfExportHandler_def a)
  have d: "resolveOptions (OptionsArg (presetWith n explicit)) = presetWith n explicit"
    by (simp add: resolveOptions_def)
  show ?thesis
    unfolding a d Let_def resolveConfig_fields presetWith_fields
    apply (intro conjI)
              apply (rule refl)
             apply (rule c)
            apply (simp only: resolveOptions_preset preset_config)
           apply (simp_all add: spreadKey_def split: optional.split)
    done
qed

theorem preset_resolution_witness:
  "contentSelector
     (resolveConfig (resolveOptions (OptionsArg
        (presetWith docusaurus (emptyOptions\<lparr>contentSelector := Present (Some ''main'')\<rparr>))))) =
     Present (Some ''main'') \<and>
   removeSelectors
     (resolveConfig (resolveOptions (OptionsArg
        (presetWith docusaurus (emptyOptions\<lparr>contentSelector := Present (Some ''main'')\<rparr>))))) =
     Present (Some [''.theme-doc-sidebar-container'', ''.table-of-contents'', ''nav'',
        ''.print-hidden'']) \<and>
   pageWidth
     (resolveConfig (resolveOptions (OptionsArg
        (presetWith docusaurus (emptyOptions\<lparr>contentSelector := Present (Some ''main'')\<rparr>))))) =
     Present (Some 850)"
proof -
  note t = preset_resolution[where n = docusaurus and w = undefined
      and explicit = "emptyOptions\<lparr>contentSelector := Present (Some ''main'')\<rparr>"]
  from t have
    "let config = resolveConfig (resolveOptions (OptionsArg
        (presetWith docusaurus (emptyOptions\<lparr>contentSelector := Present (Some ''main'')\<rparr>)))) in
     contentSelector config = Present (Some ''main'') \<and>
     removeSelectors config = Present (Some [''.theme-doc-sidebar-container'',
        ''.table-of-contents'', ''nav'', ''.print-hidden'']) \<and>
     pageWidth config = Present (Some 850)"
    by (simp add: Let_def emptyOptions_def)
  then show ?thesis by (simp add: Let_def)
qed

text \<open>
  Claim C10. The margins of an options object are merged with the defaults side by
  side: a side that the object supplies has the supplied value, every other side keeps
  the default 30; without a margins object all four sides are the default.
\<close>

theorem margins_merge:
  "margins (resolveConfig (opts\<lparr>margins := Present (Some m)\<rparr>)) =
     Present (Some
       \<lparr>margin_top = (case margin_top m of Absent \<Rightarrow> Present (Some 30) | Present v \<Rightarrow> Present v),
        margin_right =
          (case margin_right m of Absent \<Rightarrow> Present (Some 30) | Present v \<Rightarrow> Present v),
        margin_bottom =
          (case margin_bottom m of Absent \<Rightarrow> Present (Some 30) | Present v \<Rightarrow> Present v),
        margin_left =
          (case margin_left m of Absent \<Rightarrow> Present (Some 30) | Present v \<Rightarrow> Present v)\<rparr>) \<and>
   margins (resolveConfig (opts\<lparr>margins := Absent\<rparr>)) = Present (Some defaultMargins) \<and>
   resolveOptions (OptionsArg opts) = opts"
  by (simp add: resolveConfig_def marginsToSpread_def spreadMargins_def spreadKey_def
      defaultMargins_def emptyMargins_def resolveOptions_def split: optional.split)

theorem margins_merge_witness:
  "margins (resolveConfig (resolveOptions (OptionsArg
      (emptyOptions\<lparr>margins := Present (Some (emptyMargins\<lparr>margin_top := Present (Some 10),
          margin_left := Present (Some 0)\<rparr>))\<rparr>)))) =
     Present (Some
       \<lparr>margin_top = Present (Some 10), margin_right = Present (Some 30),
        margin_bottom = Present (Some 30), margin_left = Present (Some 0)\<rparr>)"
  using margins_merge[where opts = emptyOptions
      and m = "emptyMargins\<lparr>margin_top := Present (Some 10), margin_left := Present (Some 0)\<rparr>"]
    margins_merge[where opts = "emptyOptions\<lparr>margins := Present (Some (emptyMargins\<lparr>margin_top := Present (Some 10),
          margin_left := Present (Some 0)\<rparr>))\<rparr>" and m = emptyMargins]
  by (simp add: emptyMargins_def)

section \<open>Properties of the Height Measurer\<close>

lemma first_match_find:
  "(case filter sel xs of [] \<Rightarrow> None | x # ys \<Rightarrow> Some x) = find sel xs"
  by (induction xs) auto

lemma find_None_list_ex: "find sel xs = None \<longleftrightarrow> \<not> list_ex sel xs"
  by (induction xs) auto

text \<open>
  Claim C5. When the content selector matches an element of the page, the measured
  height is the height of the bounding rectangle of the first match plus 40; when it
  matches nothing, the measured height is the scroll height of the body, with nothing
  added.
\<close>

theorem measure_content_height:
  "(list_ex sel (body doc # descendants (body doc)) \<longrightarrow>
      (\<exists>content. find sel (body doc # descendants (body doc)) = Some content \<and>
         measureContentHeight l doc sel = rectHeight l content + 40)) \<and>
   (\<not> list_ex sel (body doc # descendants (body doc)) \<longrightarrow>
      measureContentHeight l doc sel = scrollHeight l)"
proof -
  let ?els = "body doc # descendants (body doc)"
  have q: "document_querySelector doc sel = find sel ?els"
    by (simp only: document_querySelector_def first_match_find)
  show ?thesis
  proof (cases "find sel ?els")
    case None
    then have "\<not> list_ex sel ?els"
      using find_None_list_ex[of sel ?els] by blast
    with None show ?thesis by (simp only: measureContentHeight_def q) simp
  next
    case (Some content)
    then have "list_ex sel ?els"
      using find_None_list_ex[of sel ?els] by (metis option.distinct(1))
    with Some show ?thesis by (simp only: measureContentHeight_def q) simp
  qed
qed

theorem measure_content_height_witness:
  "list_ex (typeSelector ''article'')
     (body \<lparr>documentElement_style = [], body = Element ''body'' [] [] []
        [Element ''article'' [] [] [] []]\<rparr> #
      descendants (body \<lparr>documentElement_style = [], body = Element ''body'' [] [] []
        [Element ''article'' [] [] [] []]\<rparr>)) \<and>
   measureContentHeight \<lparr>rectHeight = (\<lambda>el. 1234.5), scrollHeight = 9000\<rparr>
     \<lparr>documentElement_style = [], body = Element ''body'' [] [] []
        [Element ''article'' [] [] [] []]\<rparr> (typeSelector ''article'') = 1274.5 \<and>
   \<not> list_ex (typeSelector ''main'')
     (body \<lparr>documentElement_style = [], body = Element ''body'' [] [] []
        [Element ''article'' [] [] [] []]\<rparr> #
      descendants (body \<lparr>documentElement_style = [], body = Element ''body'' [] [] []
        [Element ''article'' [] [] [] []]\<rparr>)) \<and>
   measureContentHeight \<lparr>rectHeight = (\<lambda>el. 1234.5), scrollHeight = 9000\<rparr>
     \<lparr>documentElement_style = [], body = Element ''body'' [] [] []
        [Element ''article'' [] [] [] []]\<rparr> (typeSelector ''main'') = 9000"
  using measure_content_height[where sel = "typeSelector ''article''"
      and doc = "\<lparr>documentElement_style = [], body = Element ''body'' [] [] []
        [Element ''article'' [] [] [] []]\<rparr>"
      and l = "\<lparr>rectHeight = (\<lambda>el. 1234.5), scrollHeight = 9000\<rparr>"]
    measure_content_height[where sel = "typeSelector ''main''"
      and doc = "\<lparr>documentElement_style = [], body = Element ''body'' [] [] []
        [Element ''article'' [] [] [] []]\<rparr>"
      and l = "\<lparr>rectHeight = (\<lambda>el. 1234.5), scrollHeight = 9000\<rparr>"]
  by (simp add: typeSelector_def)

section \<open>Properties of the Lazy-Content Forcer\<close>

lemma awaitImage_cases: "awaitImage img = Fulfilled () \<or> awaitImage img = Pending"
  by (simp add: awaitImage_def split: imageEvent.split)

lemma promiseAll_not_rejected:
  "promiseAll (map awaitImage images) \<noteq> Rejected error"
proof (induction images)
  case Nil
  show ?case by simp
next
  case (Cons img images)
  then show ?case
    using awaitImage_cases[of img] by (auto split: promise.splits)
qed

lemma promiseAll_all_fulfilled:
  "list_all (\<lambda>img. awaitImage img = Fulfilled ()) images \<Longrightarrow>
   promiseAll (map awaitImage images) = Fulfilled (replicate (length images) ())"
  by (induction images) auto

lemma awaitImage_loading: "awaitImage (img\<lparr>img_loading := v\<rparr>) = awaitImage img"
  by (simp add: awaitImage_def)

lemma awaitImage_settles: "img_event img \<noteq> NoEvent \<Longrightarrow> awaitImage img = Fulfilled ()"
  by (cases "img_event img") (simp_all add: awaitImage_def)

text \<open>
  Claim C8. In the image phase an image that fires \<^verbatim>\<open>error\<close> is treated as one that
  fires \<^verbatim>\<open>load\<close>: its promise is fulfilled, the same as for a loaded image. The promise
  that the phase awaits is never rejected, so \<^verbatim>\<open>page.evaluate\<close> does not throw on it;
  and when every image that is reloaded fires one of the two events, the phase
  completes. A broken image does not abort the export.
\<close>

theorem broken_image_completes:
  "awaitImage (img\<lparr>img_event := ErrorEvent\<rparr>) = Fulfilled () \<and>
   awaitImage (img\<lparr>img_event := ErrorEvent\<rparr>) = awaitImage (img\<lparr>img_event := LoadEvent\<rparr>) \<and>
   snd (reloadImages images) \<noteq> Rejected error \<and>
   awaitEvaluate (snd (reloadImages images)) \<noteq> Some (Inl error) \<and>
   (list_all (\<lambda>i. img_event i \<noteq> NoEvent) images \<longrightarrow>
      awaitEvaluate (snd (reloadImages images)) = Some (Inr (replicate (length images) ())))"
proof -
  let ?images' = "map (\<lambda>img. img\<lparr>img_loading := None\<rparr>) images"
  have r: "snd (reloadImages images) = promiseAll (map awaitImage ?images')"
    by (simp add: reloadImages_def Let_def)
  have 1: "awaitImage (img\<lparr>img_event := ErrorEvent\<rparr>) = Fulfilled ()"
    by (simp add: awaitImage_def)
  have 2: "awaitImage (img\<lparr>img_event := LoadEvent\<rparr>) = Fulfilled ()"
    by (simp add: awaitImage_def)
  have 3: "snd (reloadImages images) \<noteq> Rejected error"
    unfolding r by (rule promiseAll_not_rejected)
  have 4: "awaitEvaluate (snd (reloadImages images)) \<noteq> Some (Inl error)"
    using 3 by (cases "snd (reloadImages images)") (simp_all add: awaitEvaluate_def)
  have 5: "awaitEvaluate (snd (reloadImages images)) = Some (Inr (replicate (length images) ()))"
    if "list_all (\<lambda>i. img_event i \<noteq> NoEvent) images"
  proof -
    from that have "list_all (\<lambda>img. awaitImage img = Fulfilled ()) ?images'"
      by (induction images) (simp_all add: awaitImage_loading awaitImage_settles)
    from promiseAll_all_fulfilled[OF this] show ?thesis
      by (simp add: r awaitEvaluate_def)
  qed
  from 1 2 3 4 5 show ?thesis by simp
qed

theorem broken_image_completes_witness:
  "list_all (\<lambda>i. img_event i \<noteq> NoEvent)
     [\<lparr>img_complete = True, img_naturalHeight = 120, img_loading = Some ''lazy'',
        img_src = ''/ok.png'', img_event = LoadEvent\<rparr>,
      \<lparr>img_complete = False, img_naturalHeight = 0, img_loading = Some ''lazy'',
        img_src = ''/missing.png'', img_event = ErrorEvent\<rparr>,
      \<lparr>img_complete = True, img_naturalHeight = 0, img_loading = None,
        img_src = ''/broken.png'', img_event = ErrorEvent\<rparr>] \<and>
   awaitEvaluate (snd (reloadImages
     [\<lparr>img_complete = True, img_naturalHeight = 120, img_loading = Some ''lazy'',
        img_src = ''/ok.png'', img_event = LoadEvent\<rparr>,
      \<lparr>img_complete = False, img_naturalHeight = 0, img_loading = Some ''lazy'',
        img_src = ''/missing.png'', img_event = ErrorEvent\<rparr>,
      \<lparr>img_complete = True, img_naturalHeight = 0, img_loading = None,
        img_src = ''/broken.png'', img_event = ErrorEvent\<rparr>])) = Some (Inr [(), (), ()])"
  using broken_image_completes[where images =
     "[\<lparr>img_complete = True, img_naturalHeight = 120, img_loading = Some ''lazy'',
        img_src = ''/ok.png'', img_event = LoadEvent\<rparr>,
      \<lparr>img_complete = False, img_naturalHeight = 0, img_loading = Some ''lazy'',
        img_src = ''/missing.png'', img_event = ErrorEvent\<rparr>,
      \<lparr>img_complete = True, img_naturalHeight = 0, img_loading = None,
        img_src = ''/broken.png'', img_event = ErrorEvent\<rparr>]"]
  by simp

section \<open>Properties of the Accordion Expander\<close>








section \<open>Properties of the Render Orchestrator\<close>

text \<open>
  The \<^verbatim>\<open>try\<close> block stage by stage: it throws what the first throwing stage throws, and
  returns a buffer only when no stage throws.
\<close>

lemma thrownBy_None: "thrownBy r = None \<longleftrightarrow> (\<exists>v. r = Inr v)"
  by (cases r) (simp_all add: thrownBy_def)

lemma thrownBy_Some: "thrownBy r = Some error \<longleftrightarrow> r = Inl error"
  by (cases r) (simp_all add: thrownBy_def)

lemma renderPdf_stages:
  "renderPdf w config resolvedOptions request path =
     bindTry (newPage w) (\<lambda>page.
     bindTry
       (if cookieHeaderOf request \<noteq> [] \<and> length (forwardedCookies request) > 0
        then setCookie w (forwardedCookies request) else Inr ()) (\<lambda>u1.
     bindTry (setViewport w (valueOf (pageWidth config)) 600) (\<lambda>u2.
     bindTry (goto w (baseUrlOf request @ path) (valueOf (timeout config))) (\<lambda>u3.
     bindTry
       (if truthyFlag (expandAccordions_flag config)
        then runExpandAccordions w (valueOf (accordionTriggerSelectors config))
        else Inr ()) (\<lambda>u4.
     bindTry
       (if truthyFlag (triggerLazyImages_flag config) then runTriggerLazyImages w
        else Inr ()) (\<lambda>u5.
     bindTry (runCleanupPageForPdf w config) (\<lambda>u6.
     bindTry
       (case valueOf (beforePdfGeneration resolvedOptions) of
          None \<Rightarrow> Inr ()
        | Some js \<Rightarrow> if js \<noteq> [] then runBeforePdfGeneration w js else Inr ()) (\<lambda>u7.
     bindTry (runMeasure w (valueOf (contentSelector config))) (\<lambda>contentHeight.
     pdf w (valueOf (pageWidth config)) (contentHeight + 60)
       (valueOf (margins config)))))))))))"
  unfolding renderPdf_def Let_def forwardedCookies_def baseUrlOf_def protocolOf_def
    cookieHeaderOf_def
  by (rule arg_cong[where f = "bindTry (newPage w)"], rule ext) simp


lemma first_throw_aborts:
  assumes "throwsFirstAt w config resolvedOptions request path s error"
  shows "renderPdf w config resolvedOptions request path = Inl error"
proof -
  from assms have t: "stageThrows w config resolvedOptions request path s = Some error"
    and b: "list_all (\<lambda>s'. stageThrows w config resolvedOptions request path s' = None)
       (takeWhile (\<lambda>s'. s' \<noteq> s) stages)"
    by (simp_all add: throwsFirstAt_def)
  show ?thesis
  proof (cases s)
    case PageCreation
    with t show ?thesis by (simp add: renderPdf_stages bindTry_def thrownBy_Some)
  next
    case CookieInjection
    with t b show ?thesis
      by (auto simp: stages_def renderPdf_stages bindTry_def thrownBy_Some thrownBy_None
          split: if_splits)
  next
    case ViewportSetup
    with t b show ?thesis
      by (auto simp: stages_def renderPdf_stages bindTry_def thrownBy_Some thrownBy_None
          split: if_splits)
  next
    case Navigation
    with t b show ?thesis
      by (auto simp: stages_def renderPdf_stages bindTry_def thrownBy_Some thrownBy_None
          split: if_splits)
  next
    case Expansion
    with t b show ?thesis
      by (auto simp: stages_def renderPdf_stages bindTry_def thrownBy_Some thrownBy_None
          split: if_splits)
  next
    case LazyForcing
    with t b show ?thesis
      by (auto simp: stages_def renderPdf_stages bindTry_def thrownBy_Some thrownBy_None
          split: if_splits)
  next
    case Sanitization
    with t b show ?thesis
      by (auto simp: stages_def renderPdf_stages bindTry_def thrownBy_Some thrownBy_None
          split: if_splits)
  next
    case CustomTransform
    with t b show ?thesis
      by (auto simp: stages_def renderPdf_stages bindTry_def thrownBy_Some thrownBy_None
          split: if_splits option.splits)
  next
    case Measurement
    with t b show ?thesis
      by (auto simp: stages_def renderPdf_stages bindTry_def thrownBy_Some thrownBy_None
          split: if_splits option.splits)
  next
    case Rasterization
    with t b show ?thesis
      by (auto simp: stages_def renderPdf_stages bindTry_def thrownBy_Some thrownBy_None
          split: if_splits option.splits sum.splits)
  qed
qed

lemma no_throw_when_rendered:
  assumes "renderPdf w config resolvedOptions request path = Inr pdfBuffer"
  shows "stageThrows w config resolvedOptions request path s = None"
  using assms
  by (cases s)
    (auto simp: renderPdf_stages bindTry_def thrownBy_def
      split: sum.splits if_splits option.splits)


text \<open>
  Claim C2, as amended. For every request with a path whose browser was launched, and
  every stage of the \<^verbatim>\<open>try\<close> block (page creation, cookies, viewport, navigation,
  expansion, lazy images, sanitizer, custom transform, measurement, rasterization):
  when that stage is the first to throw, the handler calls \<^verbatim>\<open>browser.close()\<close> exactly
  once; when that call returns, the handler answers with status 500, the generic
  message and the stringified cause; when that call throws, the promise of the handler
  is rejected with the error of the close. The handler hands out a PDF payload only
  when the launch, every stage and the close returned: a failing request never yields
  one.
\<close>

theorem failure_closes_once:
  "(searchParam_path request = Some path \<and> path \<noteq> [] \<and>
    launch w (launchOptions config) = Inr () \<and>
    throwsFirstAt w config resolvedOptions request path s error \<longrightarrow>
      handler w config resolvedOptions request =
        (1, case close w 0 of
              Inl error' \<Rightarrow> Rejects error'
            | Inr u \<Rightarrow> Returns (JsonResponse 500
                [(''error'', ''Failed to generate PDF''), (''details'', error)]))) \<and>
   (deliversPdf (snd (handler w config resolvedOptions request)) \<longrightarrow>
      (\<exists>path pdfBuffer.
         searchParam_path request = Some path \<and>
         launch w (launchOptions config) = Inr () \<and>
         (\<forall>s. stageThrows w config resolvedOptions request path s = None) \<and>
         renderPdf w config resolvedOptions request path = Inr pdfBuffer \<and>
         close w 0 = Inr () \<and>
         handler w config resolvedOptions request =
           (1, Returns (PdfResponse pdfBuffer
              [(''Content-Type'', ''application/pdf''),
               (''Content-Disposition'', contentDisposition path)])))) \<and>
   createPdfExportHandler w arg request =
     handler w (resolveConfig (resolveOptions arg)) (resolveOptions arg) request"
proof (intro conjI impI)
  assume a: "searchParam_path request = Some path \<and> path \<noteq> [] \<and>
    launch w (launchOptions config) = Inr () \<and>
    throwsFirstAt w config resolvedOptions request path s error"
  then have "throwsFirstAt w config resolvedOptions request path s error"
    by simp
  then have "renderPdf w config resolvedOptions request path = Inl error"
    by (rule first_throw_aborts)
  with a show "handler w config resolvedOptions request =
        (1, case close w 0 of
              Inl error' \<Rightarrow> Rejects error'
            | Inr u \<Rightarrow> Returns (JsonResponse 500
                [(''error'', ''Failed to generate PDF''), (''details'', error)]))"
    by (simp add: handler_def catchBlock_def failureReport_def split: sum.split)
next
  assume d: "deliversPdf (snd (handler w config resolvedOptions request))"
  have nf: "\<not> deliversPdf (snd (catchBlock w b n e))" for b n e
    by (simp add: catchBlock_def failureReport_def split: sum.split)
  from d obtain path where p: "searchParam_path request = Some path" "path \<noteq> []"
    by (cases "searchParam_path request")
      (auto simp: handler_def missingPathReport_def split: if_splits)
  from d p obtain u where l: "launch w (launchOptions config) = Inr u"
    using nf by (cases "launch w (launchOptions config)") (auto simp: handler_def)
  from d p l obtain pdfBuffer where r: "renderPdf w config resolvedOptions request path = Inr pdfBuffer"
    using nf by (cases "renderPdf w config resolvedOptions request path") (auto simp: handler_def)
  from d p l r obtain u' where c: "close w 0 = Inr u'"
    using nf by (cases "close w 0") (auto simp: handler_def)
  from r have n: "\<forall>s. stageThrows w config resolvedOptions request path s = None"
    by (simp add: no_throw_when_rendered)
  from p l r c n show "\<exists>path pdfBuffer.
         searchParam_path request = Some path \<and>
         launch w (launchOptions config) = Inr () \<and>
         (\<forall>s. stageThrows w config resolvedOptions request path s = None) \<and>
         renderPdf w config resolvedOptions request path = Inr pdfBuffer \<and>
         close w 0 = Inr () \<and>
         handler w config resolvedOptions request =
           (1, Returns (PdfResponse pdfBuffer
              [(''Content-Type'', ''application/pdf''),
               (''Content-Disposition'', contentDisposition path)]))"
    by (simp add: handler_def)
next
  show "createPdfExportHandler w arg request =
     handler w (resolveConfig (resolveOptions arg)) (resolveOptions arg) request"
    by (simp add: createPdfExportHandler_def Let_def)
qed

text \<open>
  The handler on \<^const>\<open>setupRequest\<close>: a run in which every stage returns, and runs in
  which the navigation times out.
\<close>

lemma default_config_flags:
  "truthyFlag (expandAccordions_flag (resolveConfig emptyOptions))"
  "truthyFlag (triggerLazyImages_flag (resolveConfig emptyOptions))"
  "valueOf (beforePdfGeneration emptyOptions) = None"
  by (simp_all add: truthyFlag_def valueOf_def resolveConfig_def spreadOptions_def
      defaultOptions_def emptyOptions_def spreadKey_def)

lemma setup_cookies:
  "parseCookies ''sid=abc; __Host-t=1'' ''docs.example.com'' True ''https://docs.example.com:443'' =
     [\<lparr>cookie_name = ''sid'', cookie_value = ''abc'', cookie_url = None,
        cookie_domain = Some ''docs.example.com'', cookie_path = ''/'', cookie_secure = True\<rparr>,
      \<lparr>cookie_name = ''__Host-t'', cookie_value = ''1'',
        cookie_url = Some ''https://docs.example.com:443'', cookie_domain = None,
        cookie_path = ''/'', cookie_secure = True\<rparr>]"
  by (simp add: parseCookies_def parseCookie_def trim_def isWhitespace_def startsWith_def Let_def)

lemma setup_request_parts:
  "remove1 CHR '':'' (nextUrl_protocol setupRequest) = ''https''"
  "hostOf setupRequest = ''docs.example.com:443''"
  "domainOf ''docs.example.com:443'' = ''docs.example.com''"
  by (simp_all add: setupRequest_def hostOf_def orElse_def domainOf_def)

lemma steady_run:
  "renderPdf steadyBrowser (resolveConfig emptyOptions) emptyOptions setupRequest ''/guides/setup'' =
   Inr ''%PDF-1.4''"
  unfolding renderPdf_def Let_def setup_request_parts
  by (simp add: setupRequest_def orElse_def setup_cookies bindTry_def steadyBrowser_def
      default_config_flags)

lemma navigation_timeout_first:
  "throwsFirstAt (steadyBrowser\<lparr>goto := (\<lambda>url t. Inl e)\<rparr>)
     (resolveConfig emptyOptions) emptyOptions setupRequest ''/guides/setup'' Navigation e"
  "throwsFirstAt (steadyBrowser\<lparr>goto := (\<lambda>url t. Inl e), close := c\<rparr>)
     (resolveConfig emptyOptions) emptyOptions setupRequest ''/guides/setup'' Navigation e"
  by (simp_all add: throwsFirstAt_def stages_def thrownBy_def steadyBrowser_def)

text \<open>
  What the handler does on the other paths: when \<^verbatim>\<open>browser.close()\<close> throws after a
  failed or a successful rendering, when the launch fails, and when the path is missing.
\<close>

lemma handler_rejects_when_close_throws:
  "searchParam_path request = Some path \<Longrightarrow> path \<noteq> [] \<Longrightarrow>
   launch w (launchOptions config) = Inr () \<Longrightarrow>
   renderPdf w config resolvedOptions request path = Inl error \<Longrightarrow>
   close w 0 = Inl error' \<Longrightarrow>
   handler w config resolvedOptions request = (1, Rejects error')"
  by (simp add: handler_def catchBlock_def)

lemma handler_closes_twice_when_first_close_throws:
  "searchParam_path request = Some path \<Longrightarrow> path \<noteq> [] \<Longrightarrow>
   launch w (launchOptions config) = Inr () \<Longrightarrow>
   renderPdf w config resolvedOptions request path = Inr pdfBuffer \<Longrightarrow>
   close w 0 = Inl error \<Longrightarrow> close w 1 = Inr () \<Longrightarrow>
   handler w config resolvedOptions request = (2, Returns (failureReport error))"
  by (simp add: handler_def catchBlock_def)

lemma handler_launch_failure:
  "searchParam_path request = Some path \<Longrightarrow> path \<noteq> [] \<Longrightarrow>
   launch w (launchOptions config) = Inl error \<Longrightarrow>
   handler w config resolvedOptions request = (0, Returns (failureReport error))"
  by (simp add: handler_def catchBlock_def)

lemma handler_missing_path:
  "searchParam_path request = None \<or> searchParam_path request = Some [] \<Longrightarrow>
   handler w config resolvedOptions request =
     (0, Returns (JsonResponse 400 [(''error'', ''Missing path parameter'')]))"
  by (auto simp: handler_def missingPathReport_def)

theorem failure_closes_once_witness:
  "searchParam_path setupRequest = Some ''/guides/setup'' \<and>
   launch (steadyBrowser\<lparr>goto := (\<lambda>url t. Inl ''TimeoutError: Navigation timeout of 30000 ms exceeded'')\<rparr>)
     (launchOptions (resolveConfig emptyOptions)) = Inr () \<and>
   throwsFirstAt (steadyBrowser\<lparr>goto := (\<lambda>url t. Inl ''TimeoutError: Navigation timeout of 30000 ms exceeded'')\<rparr>)
     (resolveConfig emptyOptions) emptyOptions setupRequest ''/guides/setup'' Navigation
     ''TimeoutError: Navigation timeout of 30000 ms exceeded'' \<and>
   handler (steadyBrowser\<lparr>goto := (\<lambda>url t. Inl ''TimeoutError: Navigation timeout of 30000 ms exceeded'')\<rparr>)
     (resolveConfig emptyOptions) emptyOptions setupRequest =
     (1, Returns (JsonResponse 500
        [(''error'', ''Failed to generate PDF''),
         (''details'', ''TimeoutError: Navigation timeout of 30000 ms exceeded'')])) \<and>
   deliversPdf (snd (handler steadyBrowser (resolveConfig emptyOptions) emptyOptions setupRequest)) \<and>
   stageThrows steadyBrowser (resolveConfig emptyOptions) emptyOptions setupRequest
     ''/guides/setup'' Navigation = None \<and>
   renderPdf steadyBrowser (resolveConfig emptyOptions) emptyOptions setupRequest ''/guides/setup'' =
     Inr ''%PDF-1.4''"
proof -
  let ?w = "steadyBrowser\<lparr>goto := (\<lambda>url t. Inl ''TimeoutError: Navigation timeout of 30000 ms exceeded'')\<rparr>"
  have p: "searchParam_path setupRequest = Some ''/guides/setup''"
    by (simp add: setupRequest_def)
  have l: "launch ?w (launchOptions (resolveConfig emptyOptions)) = Inr ()"
    by (simp add: steadyBrowser_def)
  have c: "close ?w 0 = Inr ()"
    by (simp add: steadyBrowser_def)
  note f = navigation_timeout_first(1)[
      where e = "''TimeoutError: Navigation timeout of 30000 ms exceeded''"]
  note t = failure_closes_once[where request = setupRequest and path = "''/guides/setup''"
      and w = ?w and config = "resolveConfig emptyOptions" and resolvedOptions = emptyOptions
      and s = Navigation
      and error = "''TimeoutError: Navigation timeout of 30000 ms exceeded''" and arg = NoArg]
  from t p l f
  have "handler ?w (resolveConfig emptyOptions) emptyOptions setupRequest =
     (1, case close ?w 0 of
              Inl error' \<Rightarrow> Rejects error'
            | Inr u \<Rightarrow> Returns (JsonResponse 500
        [(''error'', ''Failed to generate PDF''),
         (''details'', ''TimeoutError: Navigation timeout of 30000 ms exceeded'')]))"
    by simp
  then have h: "handler ?w (resolveConfig emptyOptions) emptyOptions setupRequest =
     (1, Returns (JsonResponse 500
        [(''error'', ''Failed to generate PDF''),
         (''details'', ''TimeoutError: Navigation timeout of 30000 ms exceeded'')]))"
    unfolding c by simp
  have d: "deliversPdf (snd (handler steadyBrowser (resolveConfig emptyOptions) emptyOptions
      setupRequest))"
  proof -
    have "launch steadyBrowser (launchOptions (resolveConfig emptyOptions)) = Inr ()"
      and "close steadyBrowser 0 = Inr ()"
      by (simp_all add: steadyBrowser_def)
    then show ?thesis by (simp add: handler_def p steady_run)
  qed
  note t' = failure_closes_once[where request = setupRequest and path = "''/guides/setup''"
      and w = steadyBrowser and config = "resolveConfig emptyOptions"
      and resolvedOptions = emptyOptions and s = Navigation
      and error = "''TimeoutError: Navigation timeout of 30000 ms exceeded''" and arg = NoArg]
  from t' d obtain path' where
    p': "searchParam_path setupRequest = Some path'"
    and n': "\<forall>s. stageThrows steadyBrowser (resolveConfig emptyOptions) emptyOptions
      setupRequest path' s = None"
    by blast
  from p p' have "path' = ''/guides/setup''"
    by simp
  with n' have n: "stageThrows steadyBrowser (resolveConfig emptyOptions) emptyOptions
      setupRequest ''/guides/setup'' Navigation = None"
    by blast
  from p l f h d n steady_run show ?thesis
    by (simp del: stageThrows.simps)
qed

text \<open>
  Claim C2, as stated, fails when \<^verbatim>\<open>browser.close()\<close> throws inside the \<^verbatim>\<open>catch\<close> block
  (the call of line 159 is not guarded): the browser was launched, the navigation times
  out, the handler calls \<^verbatim>\<open>browser.close()\<close> once, and its promise is rejected with the
  error of the close. No failure report is returned.
\<close>

theorem failure_report_counterexample:
  "searchParam_path setupRequest = Some ''/guides/setup'' \<and>
   launch (steadyBrowser\<lparr>goto := (\<lambda>url t. Inl ''TimeoutError: Navigation timeout of 30000 ms exceeded''),
       close := (\<lambda>k. Inl ''Error: Protocol error (Browser.close): Target closed'')\<rparr>)
     (launchOptions (resolveConfig emptyOptions)) = Inr () \<and>
   throwsFirstAt (steadyBrowser\<lparr>goto := (\<lambda>url t. Inl ''TimeoutError: Navigation timeout of 30000 ms exceeded''),
       close := (\<lambda>k. Inl ''Error: Protocol error (Browser.close): Target closed'')\<rparr>)
     (resolveConfig emptyOptions) emptyOptions setupRequest ''/guides/setup'' Navigation
     ''TimeoutError: Navigation timeout of 30000 ms exceeded'' \<and>
   handler (steadyBrowser\<lparr>goto := (\<lambda>url t. Inl ''TimeoutError: Navigation timeout of 30000 ms exceeded''),
       close := (\<lambda>k. Inl ''Error: Protocol error (Browser.close): Target closed'')\<rparr>)
     (resolveConfig emptyOptions) emptyOptions setupRequest =
     (1, Rejects ''Error: Protocol error (Browser.close): Target closed'') \<and>
   snd (handler (steadyBrowser\<lparr>goto := (\<lambda>url t. Inl ''TimeoutError: Navigation timeout of 30000 ms exceeded''),
       close := (\<lambda>k. Inl ''Error: Protocol error (Browser.close): Target closed'')\<rparr>)
     (resolveConfig emptyOptions) emptyOptions setupRequest) \<noteq>
     Returns (JsonResponse 500
        [(''error'', ''Failed to generate PDF''),
         (''details'', ''TimeoutError: Navigation timeout of 30000 ms exceeded'')])"
proof -
  let ?w = "steadyBrowser\<lparr>goto := (\<lambda>url t. Inl ''TimeoutError: Navigation timeout of 30000 ms exceeded''),
       close := (\<lambda>k. Inl ''Error: Protocol error (Browser.close): Target closed'')\<rparr>"
  have p: "searchParam_path setupRequest = Some ''/guides/setup''"
    by (simp add: setupRequest_def)
  have l: "launch ?w (launchOptions (resolveConfig emptyOptions)) = Inr ()"
    by (simp add: steadyBrowser_def)
  have c: "close ?w 0 = Inl ''Error: Protocol error (Browser.close): Target closed''"
    by (simp add: steadyBrowser_def)
  note f = navigation_timeout_first(2)[
      where e = "''TimeoutError: Navigation timeout of 30000 ms exceeded''"
      and c = "\<lambda>k. Inl ''Error: Protocol error (Browser.close): Target closed''"]
  have h: "handler ?w (resolveConfig emptyOptions) emptyOptions setupRequest =
     (1, Rejects ''Error: Protocol error (Browser.close): Target closed'')"
    by (rule handler_rejects_when_close_throws[OF p _ l first_throw_aborts[OF f] c]) simp
  from p l f h show ?thesis by simp
qed

section \<open>Properties of the DOM Sanitizer\<close>


lemma length_descendants:
  "length (descendants el) = sum_list (map (\<lambda>c. Suc (length (descendants c))) (children el))"
  by (cases el) (simp add: length_concat comp_def)





lemma matched_le_removed: "length (filter sel (descendants el)) \<le> removedCount sel el"
proof (induction el)
  case (Element t a s i cs)
  then have "(\<Sum>c\<leftarrow>cs. length (filter sel (c # descendants c))) \<le>
      (\<Sum>c\<leftarrow>cs. if sel c then Suc (length (descendants c)) else removedCount sel c)"
  proof (induction cs)
    case Nil
    show ?case by simp
  next
    case (Cons c cs)
    have "length (filter sel (descendants c)) \<le> removedCount sel c"
      by (rule Cons.prems) simp
    then have step: "length (filter sel (c # descendants c)) \<le>
        (if sel c then Suc (length (descendants c)) else removedCount sel c)"
      by simp
    have rest: "(\<Sum>c\<leftarrow>cs. length (filter sel (c # descendants c))) \<le>
      (\<Sum>c\<leftarrow>cs. if sel c then Suc (length (descendants c)) else removedCount sel c)"
      by (rule Cons.IH) (simp add: Cons.prems)
    show ?case
      unfolding list.map sum_list.Cons by (rule add_mono[OF step rest])
  qed
  then show ?case
    by (simp add: length_concat comp_def filter_concat)
qed

lemma assign_parts [simp]:
  "tagName (assign p v el) = tagName el"
  "attributes (assign p v el) = attributes el"
  "sheet (assign p v el) = sheet el"
  "inline (assign p v el) = assignDecl p v (inline el)"
  "children (assign p v el) = children el"
  by (cases el; simp)+

lemma assignAll_parts [simp]:
  "tagName (assignAll ds el) = tagName el"
  "attributes (assignAll ds el) = attributes el"
  "sheet (assignAll ds el) = sheet el"
  "inline (assignAll ds el) = assignDecls ds (inline el)"
  "children (assignAll ds el) = children el"
  by (cases el; simp)+

lemma setCssText_parts [simp]:
  "tagName (setCssText ds el) = tagName el"
  "attributes (setCssText ds el) = attributes el"
  "sheet (setCssText ds el) = sheet el"
  "inline (setCssText ds el) = assignDecls ds []"
  "children (setCssText ds el) = children el"
  by (cases el; simp)+

lemma setChildren_parts [simp]:
  "tagName (setChildren cs el) = tagName el"
  "attributes (setChildren cs el) = attributes el"
  "sheet (setChildren cs el) = sheet el"
  "inline (setChildren cs el) = inline el"
  "children (setChildren cs el) = cs"
  by (cases el; simp)+

lemma removeMatching_parts [simp]:
  "tagName (removeMatching sel el) = tagName el"
  "attributes (removeMatching sel el) = attributes el"
  "sheet (removeMatching sel el) = sheet el"
  "inline (removeMatching sel el) = inline el"
  by (cases el; simp)+

lemma forEachMatching_parts [simp]:
  "tagName (forEachMatching sel f el) = tagName el"
  "attributes (forEachMatching sel f el) = attributes el"
  "sheet (forEachMatching sel f el) = sheet el"
  "inline (forEachMatching sel f el) = inline el"
  by (cases el; simp)+

lemma children_forEachMatching:
  "children (forEachMatching sel f el) =
     map (\<lambda>c. if sel c then f (forEachMatching sel f c) else forEachMatching sel f c) (children el)"
  by (cases el) simp

lemma neutralize_parts [simp]:
  "tagName (neutralize el) = tagName el"
  "attributes (neutralize el) = attributes el"
  "sheet (neutralize el) = sheet el"
  "children (neutralize el) = children el"
  by (simp_all add: neutralize_def Let_def)

lemma fold_removeMatching_parts [simp]:
  "tagName (fold removeMatching sels el) = tagName el"
  "attributes (fold removeMatching sels el) = attributes el"
  "inline (fold removeMatching sels el) = inline el"
  by (induction sels arbitrary: el; simp)+

lemma fold_forEachMatching_parts [simp]:
  "tagName (fold (\<lambda>sel. forEachMatching sel f) sels el) = tagName el"
  "attributes (fold (\<lambda>sel. forEachMatching sel f) sels el) = attributes el"
  "inline (fold (\<lambda>sel. forEachMatching sel f) sels el) = inline el"
  by (induction sels arbitrary: el; simp)+










































end
